theory Spec2Isabelle
  imports Complex_Main "HOL-Library.Monad_Syntax" "HOL-Library.Multiset"
begin

section \<open>Numbers, timestamps and series\<close>

text \<open>
  The dashboards keep their tables in pandas data frames whose numeric cells are
  64-bit floats.  A cell is either a number or missing (NaN).  Numbers are taken as
  reals here: rounding and the infinities are not part of the model, the missing
  value is.  \<open>None\<close> stands for NaN, and arithmetic on cells is written in the option
  monad, where a missing operand makes the result missing, as NaN does.
\<close>

type_synonym num = "real option"

text \<open>A comparison with NaN is false, whatever the other side is.\<close>

definition num_le :: "num \<Rightarrow> real \<Rightarrow> bool" where
  "num_le a b = (case a of None \<Rightarrow> False | Some x \<Rightarrow> x \<le> b)"

text \<open>
  What pandas does with a column: \<open>valid\<close> drops the missing cells, \<open>mean\<close> and
  \<open>std\<close> skip them, the mean of no number is NaN, and the standard deviation (with one
  degree of freedom taken off, the pandas default) of fewer than two numbers is NaN.
\<close>

primrec valid :: "num list \<Rightarrow> real list" where
  "valid [] = []"
| "valid (y # ys) = (case y of None \<Rightarrow> valid ys | Some v \<Rightarrow> v # valid ys)"

definition avg :: "real list \<Rightarrow> real" where
  "avg v = sum_list v / real (length v)"

definition mean :: "num list \<Rightarrow> num" where
  "mean ys = (let v = valid ys in if v = [] then None else Some (avg v))"

definition std :: "num list \<Rightarrow> num" where
  "std ys =
     (let v = valid ys in
      if length v < 2 then None
      else Some (sqrt (sum_list (map (\<lambda>x. (x - avg v)\<^sup>2) v) / real (length v - 1))))"

definition tail :: "nat \<Rightarrow> 'a list \<Rightarrow> 'a list" where
  "tail n xs = drop (length xs - n) xs"

text \<open>\<open>np.clip(x, lo, hi)\<close> is \<open>minimum(maximum(x, lo), hi)\<close>; a NaN stays a NaN.\<close>

definition clip :: "num \<Rightarrow> real \<Rightarrow> real \<Rightarrow> num" where
  "clip x lo hi = map_option (\<lambda>v. min (max v lo) hi) x"

text \<open>
  A timestamp is a naive date and time, counted in whole seconds since
  1970-01-01 00:00, a Thursday.  \<open>dayofweek\<close> is pandas' \<open>dt.dayofweek\<close> and Python's
  \<open>weekday()\<close> (Monday is 0), \<open>hour\<close> is \<open>dt.hour\<close>.
\<close>

definition dayofweek :: "int \<Rightarrow> nat" where
  "dayofweek t = nat ((t div 86400 + 3) mod 7)"

definition hour :: "int \<Rightarrow> nat" where
  "hour t = nat ((t div 3600) mod 24)"

text \<open>
  \<open>df.groupby(key)[col]\<close>: one group per key that occurs, in ascending key order,
  each with the cells of its rows in table order.  \<open>groupby_mean\<close> is the series
  \<open>df.groupby(key)[col].mean()\<close>, \<open>series_get\<close> its \<open>.get(k, default)\<close> (the dictionary's
  too, after \<open>to_dict()\<close>).
\<close>

definition groupby :: "('r \<Rightarrow> nat) \<Rightarrow> ('r \<Rightarrow> num) \<Rightarrow> 'r list \<Rightarrow> (nat \<times> num list) list" where
  "groupby key col rs =
     map (\<lambda>k. (k, map col (filter (\<lambda>r. key r = k) rs))) (sort (remdups (map key rs)))"

definition groupby_mean :: "('r \<Rightarrow> nat) \<Rightarrow> ('r \<Rightarrow> num) \<Rightarrow> 'r list \<Rightarrow> (nat \<times> num) list" where
  "groupby_mean key col rs = map (\<lambda>(k, g). (k, mean g)) (groupby key col rs)"

definition series_get :: "(nat \<times> 'v) list \<Rightarrow> nat \<Rightarrow> 'v \<Rightarrow> 'v" where
  "series_get s k d = (case map_of s k of None \<Rightarrow> d | Some v \<Rightarrow> v)"

section \<open>AQI categories (streamlitaap.py)\<close>

definition get_aqi_category :: "num \<Rightarrow> string \<times> string" where
  "get_aqi_category aqi =
     (if num_le aqi 50 then (''Good'', ''#10b981'')
      else if num_le aqi 100 then (''Moderate'', ''#f59e0b'')
      else if num_le aqi 150 then (''Unhealthy for Sensitive'', ''#ff6b6b'')
      else if num_le aqi 200 then (''Unhealthy'', ''#ef4444'')
      else if num_le aqi 300 then (''Very Unhealthy'', ''#c026d3'')
      else (''Hazardous'', ''#7c2d12''))"

section \<open>Tables, exceptions and the environment\<close>

text \<open>
  A data frame is its column names and its rows.  The rows are typed by the schema of
  the file; reading a column whose name is not among \<open>columns\<close> raises \<open>KeyError\<close>.
\<close>

record stamped =
  timestamp :: int

record aqi_obs = stamped +
  temp :: num
  aqi :: num

record weather_obs = stamped +
  temp_C :: num
  humidity_percent :: num
  wind_speed_mps :: num

record ('n, 'r) frame =
  columns :: "'n list"
  rows :: "'r list"

text \<open>
  \<open>df.sort_values('timestamp')\<close> puts the rows in ascending order of their timestamps.
  Its default algorithm is not stable, so the order it gives to rows of equal timestamp
  is the library's choice: the sort is a parameter \<open>sort_values\<close> of every function that
  sorts, and \<open>sorts_by_timestamp\<close> says what is known of it.
\<close>

definition sorts_by_timestamp :: "('a stamped_scheme list \<Rightarrow> 'a stamped_scheme list) \<Rightarrow> bool" where
  "sorts_by_timestamp sort_values =
     (\<forall>xs. sorted (map timestamp (sort_values xs)) \<and> mset (sort_values xs) = mset xs)"

text \<open>
  The exceptions that occur, and what \<open>st.error\<close> is given to show: the text
  \<open>Error loading data:\<close> or \<open>Forecast error:\<close> followed by \<open>str(e)\<close> of the exception
  caught, kept here as the exception itself.
\<close>

datatype exn = KeyError | OverflowError | ValueError | OSError

datatype message = Error_loading_data exn | Forecast_error exn

text \<open>
  What a call reads from outside.  \<open>now e k\<close> is the \<open>k\<close>-th reading of
  \<open>datetime.now()\<close> in the call, \<open>uniform01 e k\<close> the \<open>k\<close>-th draw from [0, 1) behind
  \<open>np.random.uniform\<close>, \<open>normal01 e k\<close> the \<open>k\<close>-th standard normal draw behind
  \<open>np.random.normal\<close>.  \<open>residue e\<close> is what floating-point rounding leaves of a
  quotient whose exact value is 0/0 (see \<open>calc_trend\<close>).
\<close>

record env =
  now :: "nat \<Rightarrow> int"
  uniform01 :: "nat \<Rightarrow> real"
  normal01 :: "nat \<Rightarrow> real"
  residue :: "(real \<times> real) list \<Rightarrow> num"

text \<open>
  \<open>np.random.uniform(low, high)\<close> is \<open>low + (high - low) * u\<close> for a draw \<open>u\<close> from
  [0, 1), and raises \<open>OverflowError\<close> when \<open>high - low\<close> is not finite, which a NaN
  bound makes it.  \<open>np.random.normal(0, sigma)\<close> is \<open>0 + sigma * z\<close> for a standard
  normal draw \<open>z\<close>.
\<close>

definition uniform :: "real \<Rightarrow> num \<Rightarrow> num \<Rightarrow> exn + num" where
  "uniform u low high =
     (case (low, high) of
        (Some l, Some h) \<Rightarrow> Inr (Some (l + (h - l) * u))
      | _ \<Rightarrow> Inl OverflowError)"

definition normal :: "real \<Rightarrow> real \<Rightarrow> real \<Rightarrow> num" where
  "normal z loc scale = Some (loc + scale * z)"

section \<open>The seasonal AQI forecaster (streamlitaap.py, forecast_simple)\<close>

record fc_base =
  fc_day :: int

record daily_fc = fc_base +
  fc_aqi :: num
  fc_temp :: num
  fc_date :: int

text \<open>
  The statistics computed before the loop, each as a function of \<open>df_sorted\<close>.
  \<open>daily_aqi\<close> maps a day of the week that occurs to the mean and the standard
  deviation of its AQI cells, \<open>daily_temp\<close> to the mean of its temperatures.
\<close>

definition daily_aqi :: "aqi_obs list \<Rightarrow> (nat \<times> num \<times> num) list" where
  "daily_aqi df_sorted =
     map (\<lambda>(k, g). (k, mean g, std g)) (groupby (\<lambda>r. dayofweek (timestamp r)) aqi df_sorted)"

definition daily_temp :: "aqi_obs list \<Rightarrow> (nat \<times> num) list" where
  "daily_temp df_sorted = groupby_mean (\<lambda>r. dayofweek (timestamp r)) temp df_sorted"

definition simple_recent :: "aqi_obs list \<Rightarrow> aqi_obs list" where
  "simple_recent df_sorted = tail 336 df_sorted"

definition recent_aqi :: "aqi_obs list \<Rightarrow> num" where
  "recent_aqi df_sorted = mean (map aqi (simple_recent df_sorted))"

definition recent_temp :: "aqi_obs list \<Rightarrow> num" where
  "recent_temp df_sorted = mean (map temp (simple_recent df_sorted))"

definition recent_aqi_last3 :: "aqi_obs list \<Rightarrow> num" where
  "recent_aqi_last3 df_sorted = mean (map aqi (tail 72 (simple_recent df_sorted)))"

definition aqi_trend :: "aqi_obs list \<Rightarrow> num" where
  "aqi_trend df_sorted =
     do { a \<leftarrow> recent_aqi_last3 df_sorted; b \<leftarrow> recent_aqi df_sorted; Some (a - b) }"

text \<open>\<open>d[k]\<close> on a dictionary raises \<open>KeyError\<close> for a key that is not there.\<close>

definition getitem :: "(nat \<times> 'v) list \<Rightarrow> nat \<Rightarrow> exn + 'v" where
  "getitem d k = (case map_of d k of None \<Rightarrow> Inl KeyError | Some v \<Rightarrow> Inr v)"

text \<open>
  Lines 109 to 117: the pattern of the target day of the week, or the recent window's
  statistics when that day never occurs in the history.
\<close>

definition simple_lookup :: "aqi_obs list \<Rightarrow> nat \<Rightarrow> exn + (num \<times> num \<times> num)" where
  "simple_lookup df_sorted dow =
     (case (if dow \<in> set (map fst (daily_aqi df_sorted))
            then (case getitem (daily_aqi df_sorted) dow of
                    Inl x \<Rightarrow> Inl x
                  | Inr st \<Rightarrow> Inr (fst st, snd st))
            else Inr (recent_aqi df_sorted, std (map aqi (simple_recent df_sorted))))
      of Inl x \<Rightarrow> Inl x
       | Inr (base_aqi, aqi_std) \<Rightarrow>
           Inr (base_aqi, aqi_std, series_get (daily_temp df_sorted) dow (recent_temp df_sorted)))"

text \<open>Line 120 and line 121, before clipping.\<close>

definition predicted_aqi :: "num \<Rightarrow> num \<Rightarrow> int \<Rightarrow> num \<Rightarrow> num" where
  "predicted_aqi base_aqi trend day noise =
     do { b \<leftarrow> base_aqi; t \<leftarrow> trend; n \<leftarrow> noise; Some (b + t * real_of_int day * 0.3 + n) }"

definition predicted_temp :: "num \<Rightarrow> num \<Rightarrow> num" where
  "predicted_temp base_temp noise = do { b \<leftarrow> base_temp; n \<leftarrow> noise; Some (b + n) }"

text \<open>
  One round of the loop.  Round \<open>day\<close> takes the reading \<open>day - 1\<close> of the clock and
  the draws \<open>2 * (day - 1)\<close> and \<open>2 * (day - 1) + 1\<close> of the generator.
\<close>

definition simple_day :: "env \<Rightarrow> aqi_obs list \<Rightarrow> int \<Rightarrow> exn + daily_fc" where
  "simple_day e df_sorted day =
     (let k = nat (day - 1);
          fdate = now e k + day * 86400;
          dow = dayofweek fdate
      in case simple_lookup df_sorted dow of
           Inl x \<Rightarrow> Inl x
         | Inr (base_aqi, aqi_std, base_temp) \<Rightarrow>
             (case uniform (uniform01 e (2 * k))
                     (map_option (\<lambda>s. - s * 0.2) aqi_std) (map_option (\<lambda>s. s * 0.2) aqi_std) of
                Inl x \<Rightarrow> Inl x
              | Inr noise \<Rightarrow>
                  (case uniform (uniform01 e (2 * k + 1)) (Some (- 1)) (Some 1) of
                     Inl x \<Rightarrow> Inl x
                   | Inr tnoise \<Rightarrow>
                       Inr \<lparr>fc_day = day,
                            fc_aqi = clip (predicted_aqi base_aqi (aqi_trend df_sorted) day noise) 10 500,
                            fc_temp = clip (predicted_temp base_temp tnoise) 15 45,
                            fc_date = fdate\<rparr>)))"

text \<open>
  The loop \<open>for day in range(1, days + 1)\<close> appends one record per round to
  \<open>forecasts\<close>; an exception in a round leaves the loop with what was appended so far
  still in the local list.
\<close>

fun simple_loop :: "(int \<Rightarrow> exn + daily_fc) \<Rightarrow> int list \<Rightarrow> daily_fc list \<Rightarrow> exn + daily_fc list" where
  "simple_loop body [] forecasts = Inr forecasts"
| "simple_loop body (day # ds) forecasts =
     (case body day of
        Inl x \<Rightarrow> Inl x
      | Inr fc \<Rightarrow> simple_loop body ds (forecasts @ [fc]))"

text \<open>The body of the \<open>try\<close>.\<close>

definition forecast_simple_try ::
    "(aqi_obs list \<Rightarrow> aqi_obs list) \<Rightarrow> env \<Rightarrow> (string, aqi_obs) frame \<Rightarrow> int \<Rightarrow> exn + daily_fc list" where
  "forecast_simple_try sort_values e df days =
     (if ''timestamp'' \<notin> set (columns df) then Inl KeyError
      else let df_sorted = sort_values (rows df) in
        if ''aqi'' \<notin> set (columns df) then Inl KeyError
        else if ''temp'' \<notin> set (columns df) then Inl KeyError
        else simple_loop (simple_day e df_sorted) [1..days] [])"

text \<open>
  \<open>forecast_simple\<close> with its \<open>except\<close>: the result, and what \<open>st.error\<close> was given to
  show.  \<open>None\<close> is Python's \<open>None\<close>.
\<close>

definition forecast_simple ::
    "(aqi_obs list \<Rightarrow> aqi_obs list) \<Rightarrow> env \<Rightarrow> (string, aqi_obs) frame \<Rightarrow> int \<Rightarrow>
       daily_fc list option \<times> message list" where
  "forecast_simple sort_values e df days =
     (case forecast_simple_try sort_values e df days of
        Inl x \<Rightarrow> (None, [Forecast_error x])
      | Inr forecasts \<Rightarrow> (Some forecasts, []))"

text \<open>
  Words for the statements: the day of the week that round \<open>day\<close> aims at, the days of
  the week that occur in a table, and the rows of a table on one day of the week.
\<close>

definition target_dow :: "env \<Rightarrow> int \<Rightarrow> nat" where
  "target_dow e day = dayofweek (now e (nat (day - 1)) + day * 86400)"

definition dows :: "'a stamped_scheme list \<Rightarrow> nat set" where
  "dows rs = (\<lambda>r. dayofweek (timestamp r)) ` set rs"

definition on_dow :: "nat \<Rightarrow> 'a stamped_scheme list \<Rightarrow> 'a stamped_scheme list" where
  "on_dow k rs = filter (\<lambda>r. dayofweek (timestamp r) = k) rs"

section \<open>The hourly weather forecaster (webapp.py, forecast_weather)\<close>

record hourly_fc = fc_base +
  temps :: "num list"
  humidity :: "num list"
  wind :: "num list"

record trends =
  temp_trend :: num
  humidity_trend :: num
  wind_trend :: num

text \<open>The largest and the smallest timestamp of a column; of an empty one it is NaT.\<close>

definition ts_max :: "int list \<Rightarrow> int option" where
  "ts_max ts = (case ts of [] \<Rightarrow> None | t # r \<Rightarrow> Some (fold max r t))"

definition ts_min :: "int list \<Rightarrow> int option" where
  "ts_min ts = (case ts of [] \<Rightarrow> None | t # r \<Rightarrow> Some (fold min r t))"

definition num_sub :: "num \<Rightarrow> num \<Rightarrow> num" where
  "num_sub a b = do { x \<leftarrow> a; y \<leftarrow> b; Some (x - y) }"

definition hourly_temp :: "weather_obs list \<Rightarrow> (nat \<times> num) list" where
  "hourly_temp df_sorted = groupby_mean (\<lambda>r. hour (timestamp r)) temp_C df_sorted"

definition hourly_humidity :: "weather_obs list \<Rightarrow> (nat \<times> num) list" where
  "hourly_humidity df_sorted = groupby_mean (\<lambda>r. hour (timestamp r)) humidity_percent df_sorted"

definition hourly_wind :: "weather_obs list \<Rightarrow> (nat \<times> num) list" where
  "hourly_wind df_sorted = groupby_mean (\<lambda>r. hour (timestamp r)) wind_speed_mps df_sorted"

text \<open>The rows of the last seven days; a comparison with NaT is false.\<close>

definition weather_recent :: "weather_obs list \<Rightarrow> weather_obs list" where
  "weather_recent df_sorted =
     (case ts_max (map timestamp df_sorted) of
        None \<Rightarrow> []
      | Some last_timestamp \<Rightarrow>
          filter (\<lambda>r. last_timestamp - 7 * 86400 \<le> timestamp r) df_sorted)"

text \<open>
  \<open>calc_trend\<close>.  \<open>masked\<close> keeps the points whose \<open>y\<close> is a number.  The code divides
  the sum of products by the sum of squares with no test of the divisor; the two sums
  are numpy floats, so the division raises nothing.  When all samples lie at one hour
  both exact sums are zero.  For two samples the floating-point mean of the hours is
  exact, both sums are zero as floats and the quotient 0/0 is NaN.  For three samples
  or more the mean may be rounded, the sums are then rounding residues and their
  quotient is whatever the rounding leaves: \<open>residue e\<close>, read from the environment.
\<close>

primrec masked :: "(real \<times> num) list \<Rightarrow> (real \<times> real) list" where
  "masked [] = []"
| "masked (p # ps) = (case snd p of None \<Rightarrow> masked ps | Some b \<Rightarrow> (fst p, b) # masked ps)"

definition sxy :: "(real \<times> real) list \<Rightarrow> real" where
  "sxy pts = sum_list (map (\<lambda>(a, b). (a - avg (map fst pts)) * (b - avg (map snd pts))) pts)"

definition sxx :: "(real \<times> real) list \<Rightarrow> real" where
  "sxx pts = sum_list (map (\<lambda>(a, b). (a - avg (map fst pts))\<^sup>2) pts)"

definition hrs :: "'a stamped_scheme list \<Rightarrow> real list" where
  "hrs data =
     (case ts_min (map timestamp data) of
        None \<Rightarrow> []
      | Some t0 \<Rightarrow> map (\<lambda>r. real_of_int (timestamp r - t0) / 3600) data)"

definition trend_points :: "weather_obs list \<Rightarrow> (weather_obs \<Rightarrow> num) \<Rightarrow> (real \<times> real) list" where
  "trend_points data col = masked (zip (hrs data) (map col data))"

definition calc_trend :: "env \<Rightarrow> weather_obs list \<Rightarrow> (weather_obs \<Rightarrow> num) \<Rightarrow> num" where
  "calc_trend e data col =
     (let pts = trend_points data col in
      if length pts < 2 then Some 0
      else if sxx pts \<noteq> 0 then Some (sxy pts / sxx pts)
      else if length pts = 2 then None
      else residue e pts)"

text \<open>
  The specification's words for the slope: the ratio of the covariance of the two
  columns to the variance of the hours, and the sum of squared errors of a line, which
  ordinary least squares makes as small as it can be.
\<close>

definition spec_variance :: "real list \<Rightarrow> real" where
  "spec_variance xs = (\<Sum>x\<leftarrow>xs. (x - avg xs)\<^sup>2) / real (length xs)"

definition spec_covariance :: "(real \<times> real) list \<Rightarrow> real" where
  "spec_covariance pts =
     (\<Sum>(x, y)\<leftarrow>pts. (x - avg (map fst pts)) * (y - avg (map snd pts))) / real (length pts)"

definition ols_slope :: "(real \<times> real) list \<Rightarrow> real" where
  "ols_slope pts = spec_covariance pts / spec_variance (map fst pts)"

definition ols_intercept :: "(real \<times> real) list \<Rightarrow> real" where
  "ols_intercept pts = avg (map snd pts) - ols_slope pts * avg (map fst pts)"

definition sse :: "(real \<times> real) list \<Rightarrow> real \<Rightarrow> real \<Rightarrow> real" where
  "sse pts a b = (\<Sum>(x, y)\<leftarrow>pts. (y - (a + b * x))\<^sup>2)"

definition temp_slope :: "env \<Rightarrow> weather_obs list \<Rightarrow> num" where
  "temp_slope e df_sorted = calc_trend e (weather_recent df_sorted) temp_C"

definition hum_slope :: "env \<Rightarrow> weather_obs list \<Rightarrow> num" where
  "hum_slope e df_sorted = calc_trend e (weather_recent df_sorted) humidity_percent"

definition wind_slope :: "env \<Rightarrow> weather_obs list \<Rightarrow> num" where
  "wind_slope e df_sorted = calc_trend e (weather_recent df_sorted) wind_speed_mps"

definition base_temp :: "weather_obs list \<Rightarrow> num" where
  "base_temp df_sorted = mean (tail 24 (map temp_C (weather_recent df_sorted)))"

definition base_hum :: "weather_obs list \<Rightarrow> num" where
  "base_hum df_sorted = mean (tail 24 (map humidity_percent (weather_recent df_sorted)))"

definition base_wind :: "weather_obs list \<Rightarrow> num" where
  "base_wind df_sorted = mean (tail 24 (map wind_speed_mps (weather_recent df_sorted)))"

definition weekly_temp :: "weather_obs list \<Rightarrow> (nat \<times> num) list" where
  "weekly_temp df_sorted = groupby_mean (\<lambda>r. dayofweek (timestamp r)) temp_C df_sorted"

definition weekly_hum :: "weather_obs list \<Rightarrow> (nat \<times> num) list" where
  "weekly_hum df_sorted = groupby_mean (\<lambda>r. dayofweek (timestamp r)) humidity_percent df_sorted"

text \<open>The hours from the first to the last timestamp of the recent window.\<close>

definition last_hrs :: "weather_obs list \<Rightarrow> num" where
  "last_hrs df_sorted =
     (case (ts_max (map timestamp (weather_recent df_sorted)),
            ts_min (map timestamp (weather_recent df_sorted))) of
        (Some a, Some b) \<Rightarrow> Some (real_of_int (a - b) / 3600)
      | _ \<Rightarrow> None)"

text \<open>
  Inside the loops.  Round \<open>day\<close> takes the reading \<open>day - 1\<close> of the clock; hour \<open>hr\<close>
  of round \<open>day\<close> takes three normal draws, for temperature, humidity and wind in
  that order.
\<close>

definition weather_dow :: "env \<Rightarrow> int \<Rightarrow> nat" where
  "weather_dow e day = dayofweek (now e (nat (day - 1)) + day * 86400)"

definition weekly_t :: "weather_obs list \<Rightarrow> nat \<Rightarrow> num" where
  "weekly_t df_sorted dow =
     num_sub (series_get (weekly_temp df_sorted) dow (base_temp df_sorted))
       (mean (map snd (weekly_temp df_sorted)))"

definition weekly_h :: "weather_obs list \<Rightarrow> nat \<Rightarrow> num" where
  "weekly_h df_sorted dow =
     num_sub (series_get (weekly_hum df_sorted) dow (base_hum df_sorted))
       (mean (map snd (weekly_hum df_sorted)))"

definition hr_off :: "weather_obs list \<Rightarrow> int \<Rightarrow> nat \<Rightarrow> num" where
  "hr_off df_sorted day hr =
     do { l \<leftarrow> last_hrs df_sorted; Some (l + real_of_int ((day - 1) * 24) + real hr) }"

definition t_seas :: "weather_obs list \<Rightarrow> nat \<Rightarrow> num" where
  "t_seas df_sorted hr =
     num_sub (series_get (hourly_temp df_sorted) hr (base_temp df_sorted))
       (mean (map snd (hourly_temp df_sorted)))"

definition h_seas :: "weather_obs list \<Rightarrow> nat \<Rightarrow> num" where
  "h_seas df_sorted hr =
     num_sub (series_get (hourly_humidity df_sorted) hr (base_hum df_sorted))
       (mean (map snd (hourly_humidity df_sorted)))"

definition w_seas :: "weather_obs list \<Rightarrow> nat \<Rightarrow> num" where
  "w_seas df_sorted hr =
     num_sub (series_get (hourly_wind df_sorted) hr (base_wind df_sorted))
       (mean (map snd (hourly_wind df_sorted)))"

definition draw :: "int \<Rightarrow> nat \<Rightarrow> nat" where
  "draw day hr = 3 * (24 * nat (day - 1) + hr)"

definition pred_t :: "env \<Rightarrow> weather_obs list \<Rightarrow> int \<Rightarrow> nat \<Rightarrow> num" where
  "pred_t e df_sorted day hr =
     do { b \<leftarrow> base_temp df_sorted; s \<leftarrow> t_seas df_sorted hr;
          w \<leftarrow> weekly_t df_sorted (weather_dow e day);
          m \<leftarrow> temp_slope e df_sorted; off \<leftarrow> hr_off df_sorted day hr;
          n \<leftarrow> normal (normal01 e (draw day hr)) 0 0.3;
          Some (b + s + w + m * off + n) }"

definition pred_h :: "env \<Rightarrow> weather_obs list \<Rightarrow> int \<Rightarrow> nat \<Rightarrow> num" where
  "pred_h e df_sorted day hr =
     do { b \<leftarrow> base_hum df_sorted; s \<leftarrow> h_seas df_sorted hr;
          w \<leftarrow> weekly_h df_sorted (weather_dow e day);
          m \<leftarrow> hum_slope e df_sorted; off \<leftarrow> hr_off df_sorted day hr;
          n \<leftarrow> normal (normal01 e (draw day hr + 1)) 0 1.5;
          Some (b + s + w + m * off + n) }"

definition pred_w :: "env \<Rightarrow> weather_obs list \<Rightarrow> int \<Rightarrow> nat \<Rightarrow> num" where
  "pred_w e df_sorted day hr =
     do { b \<leftarrow> base_wind df_sorted; s \<leftarrow> w_seas df_sorted hr;
          m \<leftarrow> wind_slope e df_sorted; off \<leftarrow> hr_off df_sorted day hr;
          n \<leftarrow> normal (normal01 e (draw day hr + 2)) 0 0.2;
          Some (b + s + m * off + n) }"

definition weather_day :: "env \<Rightarrow> weather_obs list \<Rightarrow> int \<Rightarrow> hourly_fc" where
  "weather_day e df_sorted day =
     \<lparr>fc_day = day,
      temps = map (\<lambda>hr. clip (pred_t e df_sorted day hr) 15 45) [0..<24],
      humidity = map (\<lambda>hr. clip (pred_h e df_sorted day hr) 20 100) [0..<24],
      wind = map (\<lambda>hr. clip (pred_w e df_sorted day hr) 0 25) [0..<24]\<rparr>"

text \<open>The body of the \<open>try\<close>, and \<open>forecast_weather\<close> with its \<open>except\<close>.\<close>

definition forecast_weather_try ::
    "(weather_obs list \<Rightarrow> weather_obs list) \<Rightarrow> env \<Rightarrow> (string, weather_obs) frame \<Rightarrow> int \<Rightarrow>
       exn + hourly_fc list \<times> trends" where
  "forecast_weather_try sort_values e df days =
     (if ''timestamp'' \<notin> set (columns df) then Inl KeyError
      else let df_sorted = sort_values (rows df) in
        if ''temp_C'' \<notin> set (columns df) then Inl KeyError
        else if ''humidity_percent'' \<notin> set (columns df) then Inl KeyError
        else if ''wind_speed_mps'' \<notin> set (columns df) then Inl KeyError
        else Inr (map (weather_day e df_sorted) [1..days],
                  \<lparr>temp_trend = temp_slope e df_sorted, humidity_trend = hum_slope e df_sorted,
                   wind_trend = wind_slope e df_sorted\<rparr>))"

definition forecast_weather ::
    "(weather_obs list \<Rightarrow> weather_obs list) \<Rightarrow> env \<Rightarrow> (string, weather_obs) frame \<Rightarrow> int \<Rightarrow>
       (hourly_fc list option \<times> trends option) \<times> message list" where
  "forecast_weather sort_values e df days =
     (case forecast_weather_try sort_values e df days of
        Inl x \<Rightarrow> ((None, None), [Forecast_error x])
      | Inr (forecasts, tr) \<Rightarrow> ((Some forecasts, Some tr), []))"





section \<open>Loading the table (load_data, both files)\<close>

text \<open>
  \<open>pd.read_csv\<close> either raises or gives a frame: the column names as the file has
  them, and the rows of cells.  A name is a Python string, a list of Unicode code
  points.  \<open>str.strip\<close> removes the white space at both ends of a name; \<open>isspace\<close> lists
  the code points Python counts as white space.
\<close>

type_synonym name = "nat list"

definition codes :: "string \<Rightarrow> name" where
  "codes s = map of_char s"

definition isspace :: "nat \<Rightarrow> bool" where
  "isspace c =
     ((9 \<le> c \<and> c \<le> 13) \<or> (28 \<le> c \<and> c \<le> 32) \<or> c = 133 \<or> c = 160 \<or> c = 5760 \<or>
      (8192 \<le> c \<and> c \<le> 8202) \<or> c = 8232 \<or> c = 8233 \<or> c = 8239 \<or> c = 8287 \<or> c = 12288)"

definition strip :: "name \<Rightarrow> name" where
  "strip s = rev (dropWhile isspace (rev (dropWhile isspace s)))"

definition positions :: "name \<Rightarrow> name list \<Rightarrow> nat list" where
  "positions n cols = filter (\<lambda>i. cols ! i = n) [0..<length cols]"

text \<open>
  \<open>pd.to_datetime(..., errors='coerce')\<close> turns a cell into a timestamp or, when it
  cannot be read as one, into NaT; what it reads is the library's business, so it is
  the parameter \<open>to_datetime\<close>.  A row that is too short has no cell in the column, which
  counts as a cell that cannot be read.  \<open>dropna\<close> keeps the rows whose timestamp is not
  NaT, in table order, and \<open>sort_values\<close> orders them by timestamp.
\<close>

record 'c raw_row = stamped +
  cells :: "'c list"

definition cell_at :: "'c list \<Rightarrow> nat \<Rightarrow> 'c option" where
  "cell_at r i = (if i < length r then Some (r ! i) else None)"

definition stamp_of :: "('c \<Rightarrow> int option) \<Rightarrow> nat \<Rightarrow> 'c list \<Rightarrow> int option" where
  "stamp_of to_datetime i r = (case cell_at r i of None \<Rightarrow> None | Some c \<Rightarrow> to_datetime c)"

primrec dropna :: "('c \<Rightarrow> int option) \<Rightarrow> nat \<Rightarrow> 'c list list \<Rightarrow> 'c raw_row list" where
  "dropna to_datetime i [] = []"
| "dropna to_datetime i (r # rs) =
     (case stamp_of to_datetime i r of
        None \<Rightarrow> dropna to_datetime i rs
      | Some t \<Rightarrow> \<lparr>timestamp = t, cells = r\<rparr> # dropna to_datetime i rs)"

text \<open>
  The body of the \<open>try\<close>.  With no column named \<open>timestamp\<close> after the trimming the
  subscript raises \<open>KeyError\<close>; with several, the subscript yields a frame, which
  \<open>to_datetime\<close> refuses with \<open>ValueError\<close>.
\<close>

definition load_data_try ::
    "('c \<Rightarrow> int option) \<Rightarrow> ('c raw_row list \<Rightarrow> 'c raw_row list) \<Rightarrow> exn + (name, 'c list) frame \<Rightarrow>
       exn + (name, 'c raw_row) frame" where
  "load_data_try to_datetime sort_values read_csv =
     (case read_csv of
        Inl x \<Rightarrow> Inl x
      | Inr df \<Rightarrow>
          (let cols = map strip (columns df) in
           case positions (codes ''timestamp'') cols of
             [] \<Rightarrow> Inl KeyError
           | [i] \<Rightarrow> Inr \<lparr>columns = cols, rows = sort_values (dropna to_datetime i (rows df))\<rparr>
           | _ \<Rightarrow> Inl ValueError))"

definition load_data ::
    "('c \<Rightarrow> int option) \<Rightarrow> ('c raw_row list \<Rightarrow> 'c raw_row list) \<Rightarrow> exn + (name, 'c list) frame \<Rightarrow>
       (name, 'c raw_row) frame option \<times> message list" where
  "load_data to_datetime sort_values read_csv =
     (case load_data_try to_datetime sort_values read_csv of
        Inl x \<Rightarrow> (None, [Error_loading_data x])
      | Inr df \<Rightarrow> (Some df, []))"

section \<open>Example inputs\<close>

text \<open>
  An environment whose clock stands at 1970-01-01 00:00, whose uniform draws are all
  1/2 and whose normal draws are all 0, so that every noise term is 0, and where the
  rounding residues make a slope of 0.
\<close>

definition e0 :: env where
  "e0 = \<lparr>now = (\<lambda>k. 0), uniform01 = (\<lambda>k. 1 / 2), normal01 = (\<lambda>k. 0), residue = (\<lambda>pts. Some 0)\<rparr>"

text \<open>
  Cells of a file, a reader of two timestamps, and a file of four lines: one whose
  timestamp cannot be read, and two that carry the same timestamp.  Its first column
  name ends in a no-break space.
\<close>

datatype cell = Text string | Number real

definition to_datetime0 :: "cell \<Rightarrow> int option" where
  "to_datetime0 c =
     (case c of
        Text s \<Rightarrow> (if s = ''2024-01-01 00:00:00'' then Some 1704067200
                   else if s = ''2024-01-01 01:00:00'' then Some 1704070800 else None)
      | _ \<Rightarrow> None)"

definition dup_csv :: "(name, cell list) frame" where
  "dup_csv =
     \<lparr>columns = [codes '' timestamp'' @ [160], codes ''aqi ''],
      rows = [[Text ''2024-01-01 01:00:00'', Number 40], [Text ''n/a'', Number 50],
              [Text ''2024-01-01 00:00:00'', Number 60], [Text ''2024-01-01 01:00:00'', Number 70]]\<rparr>"

definition w_row :: "int \<Rightarrow> num \<Rightarrow> num \<Rightarrow> num \<Rightarrow> weather_obs" where
  "w_row t a b c = \<lparr>timestamp = t, temp_C = a, humidity_percent = b, wind_speed_mps = c\<rparr>"

text \<open>Three hourly rows whose temperature rises by two degrees an hour.\<close>

definition rising :: "weather_obs list" where
  "rising = [w_row 0 (Some 20) (Some 50) None, w_row 3600 (Some 22) None None,
             w_row 7200 (Some 24) (Some 50) None]"

text \<open>Two rows of the same timestamp.\<close>

definition twins :: "weather_obs list" where
  "twins = [w_row 0 (Some 20) (Some 50) (Some 3), w_row 0 (Some 30) (Some 50) (Some 3)]"

text \<open>
  Tables for the seasonal forecaster.  With the clock of \<open>e0\<close> the three days ahead are
  a Friday, a Saturday and a Sunday.  \<open>single\<close> has one row, on a Thursday; \<open>two_thu\<close>
  has two rows on a Thursday; \<open>fri_sat\<close> has two rows on a Friday and one on a Saturday.
\<close>

definition a_row :: "int \<Rightarrow> num \<Rightarrow> num \<Rightarrow> aqi_obs" where
  "a_row t a b = \<lparr>timestamp = t, temp = a, aqi = b\<rparr>"

definition aqi_columns :: "string list" where
  "aqi_columns = [''timestamp'', ''temp'', ''humidity'', ''wind_speed'', ''aqi'']"

definition single :: "(string, aqi_obs) frame" where
  "single = \<lparr>columns = aqi_columns, rows = [a_row 0 (Some 30) (Some 50)]\<rparr>"

definition two_thu :: "(string, aqi_obs) frame" where
  "two_thu = \<lparr>columns = aqi_columns,
     rows = [a_row 0 (Some 30) (Some 40), a_row 3600 (Some 30) (Some 60)]\<rparr>"

definition fri_sat :: "(string, aqi_obs) frame" where
  "fri_sat = \<lparr>columns = aqi_columns,
     rows = [a_row 86400 (Some 30) (Some 40), a_row 90000 (Some 30) (Some 60),
             a_row 172800 (Some 30) (Some 50)]\<rparr>"

text \<open>
  The example of the specification: a clock that stands on a Sunday, so that the first
  day ahead is a Monday, and a table whose three Monday rows have the AQI mean 80 and
  the standard deviation 10, whose last 72 rows have the mean 78 and whose 144 rows
  (all within the last 336) have the mean 75.
\<close>

definition e_sun :: env where
  "e_sun = \<lparr>now = (\<lambda>k. 259200), uniform01 = (\<lambda>k. 1 / 2), normal01 = (\<lambda>k. 0), residue = (\<lambda>pts. Some 0)\<rparr>"

definition spec_example :: "aqi_obs list" where
  "spec_example =
     replicate 72 (a_row 259200 (Some 30) (Some 72)) @
     [a_row 345600 (Some 30) (Some 90), a_row 345600 (Some 30) (Some 70),
      a_row 345600 (Some 30) (Some 80), a_row 432000 (Some 30) (Some 72)] @
     replicate 68 (a_row 432000 (Some 30) (Some 78))"

text \<open>Frames for the hourly forecaster: one with the columns of the file, one without \<open>temp_C\<close>.\<close>

definition weather_columns :: "string list" where
  "weather_columns =
     [''timestamp'', ''temp_C'', ''humidity_percent'', ''wind_speed_mps'', ''pm2_5_ugm3'']"


definition no_temp :: "(string, weather_obs) frame" where
  "no_temp = \<lparr>columns = [''timestamp'', ''humidity_percent'', ''wind_speed_mps''], rows = rising\<rparr>"

text \<open>
  Tables whose values lie outside the clipping intervals, and a table whose one row has
  no temperature.
\<close>

definition hot :: "(string, aqi_obs) frame" where
  "hot = \<lparr>columns = aqi_columns,
     rows = [a_row 0 (Some 50) (Some 600), a_row 3600 (Some 50) (Some 600)]\<rparr>"

definition extreme :: "(string, weather_obs) frame" where
  "extreme = \<lparr>columns = weather_columns, rows = [w_row 0 (Some 50) (Some 10) (Some 30)]\<rparr>"

definition temp_missing :: "(string, weather_obs) frame" where
  "temp_missing = \<lparr>columns = weather_columns, rows = [w_row 0 None (Some 50) (Some 3)]\<rparr>"



section \<open>Properties\<close>

subsection \<open>AQI categories\<close>

lemma get_aqi_category_nan: "get_aqi_category None = (''Hazardous'', ''#7c2d12'')"
  by (simp add: get_aqi_category_def num_le_def)

text \<open>
  Claim C10.  The categorisation is a total function of the AQI value, and on the real
  values the thresholds 50, 100, 150, 200 and 300 cut the line into six classes, each
  with its colour: a value gets \<open>Good\<close> exactly when it is at most 50 (zero and the
  negative values included), \<open>Moderate\<close> exactly when it lies in (50, 100],
  \<open>Unhealthy for Sensitive\<close> in (100, 150], \<open>Unhealthy\<close> in (150, 200],
  \<open>Very Unhealthy\<close> in (200, 300], and \<open>Hazardous\<close> exactly when it exceeds 300.
\<close>

theorem get_aqi_category_partition:
  "(get_aqi_category (Some x) = (''Good'', ''#10b981'')) = (x \<le> 50) \<and>
   (get_aqi_category (Some x) = (''Moderate'', ''#f59e0b'')) = (50 < x \<and> x \<le> 100) \<and>
   (get_aqi_category (Some x) = (''Unhealthy for Sensitive'', ''#ff6b6b'')) = (100 < x \<and> x \<le> 150) \<and>
   (get_aqi_category (Some x) = (''Unhealthy'', ''#ef4444'')) = (150 < x \<and> x \<le> 200) \<and>
   (get_aqi_category (Some x) = (''Very Unhealthy'', ''#c026d3'')) = (200 < x \<and> x \<le> 300) \<and>
   (get_aqi_category (Some x) = (''Hazardous'', ''#7c2d12'')) = (300 < x) \<and>
   fst (get_aqi_category (Some x)) \<in>
     {''Good'', ''Moderate'', ''Unhealthy for Sensitive'', ''Unhealthy'', ''Very Unhealthy'',
      ''Hazardous''}"
  by (simp add: get_aqi_category_def num_le_def)

theorem get_aqi_category_partition_witness:
  "get_aqi_category (Some 0) = (''Good'', ''#10b981'') \<and>
   get_aqi_category (Some (-7)) = (''Good'', ''#10b981'') \<and>
   get_aqi_category (Some 50) = (''Good'', ''#10b981'') \<and>
   get_aqi_category (Some 100) = (''Moderate'', ''#f59e0b'') \<and>
   get_aqi_category (Some 150) = (''Unhealthy for Sensitive'', ''#ff6b6b'') \<and>
   get_aqi_category (Some 200) = (''Unhealthy'', ''#ef4444'') \<and>
   get_aqi_category (Some 300) = (''Very Unhealthy'', ''#c026d3'') \<and>
   get_aqi_category (Some 301) = (''Hazardous'', ''#7c2d12'')"
  using get_aqi_category_partition [of 0] get_aqi_category_partition [of "-7"]
    get_aqi_category_partition [of 50] get_aqi_category_partition [of 100]
    get_aqi_category_partition [of 150] get_aqi_category_partition [of 200]
    get_aqi_category_partition [of 300] get_aqi_category_partition [of 301]
  by simp

subsection \<open>The linear trend\<close>

lemma sum_list_centered: "xs \<noteq> [] \<Longrightarrow> (\<Sum>x\<leftarrow>xs. f x - avg (map f xs)) = 0"
  by (simp add: sum_list_subtractf sum_list_triv avg_def)

lemma sxx_alt: "sxx pts = (\<Sum>x\<leftarrow>map fst pts. (x - avg (map fst pts))\<^sup>2)"
  by (simp add: sxx_def comp_def case_prod_unfold)

lemma ols_slope_ratio: "pts \<noteq> [] \<Longrightarrow> ols_slope pts = sxy pts / sxx pts"
  by (simp add: ols_slope_def spec_covariance_def spec_variance_def sxy_def sxx_alt)

lemma spec_variance_zero_iff: "pts \<noteq> [] \<Longrightarrow> spec_variance (map fst pts) = 0 \<longleftrightarrow> sxx pts = 0"
  by (simp add: spec_variance_def sxx_alt)

lemma spec_covariance_zero_iff: "pts \<noteq> [] \<Longrightarrow> spec_covariance pts = 0 \<longleftrightarrow> sxy pts = 0"
  by (simp add: spec_covariance_def sxy_def)

lemma sxx_zero_iff: "sxx pts = 0 \<longleftrightarrow> (\<forall>p \<in> set pts. fst p = avg (map fst pts))"
proof -
  have "sxx pts = 0 \<longleftrightarrow> (\<forall>v \<in> set (map (\<lambda>(a, b). (a - avg (map fst pts))\<^sup>2) pts). v = 0)"
    unfolding sxx_def by (rule sum_list_nonneg_eq_0_iff) auto
  then show ?thesis by (auto simp: case_prod_unfold)
qed

lemma sxx_zero_sxy_zero: "sxx pts = 0 \<Longrightarrow> sxy pts = 0"
proof -
  assume "sxx pts = 0"
  then have eq: "\<forall>p \<in> set pts. fst p = avg (map fst pts)" by (simp add: sxx_zero_iff)
  have "map (\<lambda>(a, b). (a - avg (map fst pts)) * (b - avg (map snd pts))) pts = map (\<lambda>p. 0) pts"
    using eq by (intro map_cong) (auto simp: case_prod_unfold)
  then show ?thesis unfolding sxy_def by (simp only: sum_list_0)
qed

lemma least_squares:
  assumes ne: "pts \<noteq> []" and nz: "sxx pts \<noteq> 0"
  shows "sse pts (ols_intercept pts) (ols_slope pts) \<le> sse pts a' b'"
proof -
  define b where "b = ols_slope pts"
  define a where "a = ols_intercept pts"
  define xm where "xm = avg (map fst pts)"
  define ym where "ym = avg (map snd pts)"
  define c where "c = a - a' + (b - b') * xm"
  define d where "d = b - b'"
  define r where "r = (\<lambda>p::real \<times> real. (snd p - ym) - b * (fst p - xm))"
  define u where "u = (\<lambda>p::real \<times> real. fst p - xm)"
  have b: "b = sxy pts / sxx pts" by (simp add: b_def ols_slope_ratio ne)
  have a: "a = ym - b * xm" by (simp add: a_def ols_intercept_def b_def xm_def ym_def)
  have s1: "(\<Sum>p\<leftarrow>pts. fst p - xm) = 0" unfolding xm_def using sum_list_centered [OF ne, of fst] .
  have s2: "(\<Sum>p\<leftarrow>pts. snd p - ym) = 0" unfolding ym_def using sum_list_centered [OF ne, of snd] .
  have sr: "(\<Sum>p\<leftarrow>pts. r p) = 0"
  proof -
    have "(\<Sum>p\<leftarrow>pts. r p) = (\<Sum>p\<leftarrow>pts. snd p - ym) - b * (\<Sum>p\<leftarrow>pts. fst p - xm)"
      unfolding r_def by (simp only: sum_list_subtractf sum_list_const_mult)
    then show ?thesis by (simp only: s1 s2)
  qed
  have xy: "(\<Sum>p\<leftarrow>pts. (snd p - ym) * (fst p - xm)) = sxy pts"
    by (simp add: sxy_def xm_def ym_def case_prod_unfold mult.commute)
  have xx: "(\<Sum>p\<leftarrow>pts. (fst p - xm) * (fst p - xm)) = sxx pts"
    by (simp add: sxx_def xm_def case_prod_unfold power2_eq_square)
  have "(\<Sum>p\<leftarrow>pts. r p * u p) = (\<Sum>p\<leftarrow>pts. (snd p - ym) * (fst p - xm) - b * ((fst p - xm) * (fst p - xm)))"
    by (simp add: r_def u_def algebra_simps)
  also have "\<dots> = sxy pts - b * sxx pts"
    by (simp add: sum_list_subtractf sum_list_const_mult xy xx)
  also have "\<dots> = 0" using nz by (simp add: b)
  finally have sru: "(\<Sum>p\<leftarrow>pts. r p * u p) = 0" .
  have e1: "sse pts a b = (\<Sum>p\<leftarrow>pts. (r p)\<^sup>2)"
    unfolding sse_def by (rule arg_cong [where f = sum_list], rule map_cong)
      (auto simp: r_def a algebra_simps)
  have "sse pts a' b' = (\<Sum>p\<leftarrow>pts. (r p)\<^sup>2 + ((c + d * u p)\<^sup>2 + (2 * c * r p + 2 * d * (r p * u p))))"
    unfolding sse_def by (rule arg_cong [where f = sum_list], rule map_cong)
      (auto simp: r_def u_def c_def d_def a power2_eq_square algebra_simps)
  also have "\<dots> = (\<Sum>p\<leftarrow>pts. (r p)\<^sup>2) + (\<Sum>p\<leftarrow>pts. (c + d * u p)\<^sup>2)"
    by (simp add: sum_list_addf sum_list_const_mult sr sru mult.assoc)
  finally have e2: "sse pts a' b' = sse pts a b + (\<Sum>p\<leftarrow>pts. (c + d * u p)\<^sup>2)"
    by (simp add: e1)
  have "0 \<le> (\<Sum>p\<leftarrow>pts. (c + d * u p)\<^sup>2)" by (rule sum_list_nonneg) auto
  with e2 show ?thesis by (simp add: a_def b_def)
qed

lemma length_masked: "length xs = length ys \<Longrightarrow> length (masked (zip xs ys)) = length (valid ys)"
  by (induction xs ys rule: list_induct2) (auto split: option.splits)

lemma length_hrs: "length (hrs data) = length data"
  by (cases data) (simp_all add: hrs_def ts_min_def)

lemma length_trend_points: "length (trend_points data col) = length (valid (map col data))"
  by (simp add: trend_points_def length_masked length_hrs)

lemma ts_min_Min: "ts \<noteq> [] \<Longrightarrow> ts_min ts = Some (Min (set ts))"
proof (cases ts)
  case (Cons a list)
  then show ?thesis using Min.set_eq_fold [of a list] by (simp add: ts_min_def)
qed simp


lemma hrs_elapsed:
  "data \<noteq> [] \<Longrightarrow>
     hrs data = map (\<lambda>r. real_of_int (timestamp r - Min (timestamp ` set data)) / 3600) data"
  by (simp add: hrs_def ts_min_Min)

text \<open>
  Claim C4, as the code has it.  With fewer than two samples that are not NaN in the
  window, \<open>calc_trend\<close> returns the slope 0 and raises nothing.  With two or more, and the
  samples not all at one timestamp (the hours have a variance that is not zero), it
  returns the ordinary-least-squares slope of the column against the hours elapsed
  since the first timestamp of the window, over the samples that are not NaN: the ratio
  of covariance to variance, and the line with that slope through the two means has the
  least sum of squared errors of all lines.
\<close>

theorem calc_trend_ols:
  "(length (valid (map col data)) < 2 \<longrightarrow> calc_trend e data col = Some 0) \<and>
   (2 \<le> length (valid (map col data)) \<and> spec_variance (map fst (trend_points data col)) \<noteq> 0 \<longrightarrow>
      calc_trend e data col = Some (ols_slope (trend_points data col)) \<and>
      (\<forall>a' b'. sse (trend_points data col) (ols_intercept (trend_points data col))
                  (ols_slope (trend_points data col))
                \<le> sse (trend_points data col) a' b')) \<and>
   trend_points data col =
     masked (zip (map (\<lambda>r. real_of_int (timestamp r - Min (timestamp ` set data)) / 3600) data)
               (map col data))"
proof -
  define pts where "pts = trend_points data col"
  have len: "length pts = length (valid (map col data))"
    by (simp add: pts_def length_trend_points)
  have c1: "length (valid (map col data)) < 2 \<longrightarrow> calc_trend e data col = Some 0"
    using len by (simp add: calc_trend_def pts_def)
  have c2: "calc_trend e data col = Some (ols_slope pts) \<and>
      (\<forall>a' b'. sse pts (ols_intercept pts) (ols_slope pts) \<le> sse pts a' b')"
    if "2 \<le> length (valid (map col data))" "spec_variance (map fst pts) \<noteq> 0"
  proof -
    from that len have ne: "pts \<noteq> []" by auto
    with that have nz: "sxx pts \<noteq> 0" by (simp add: spec_variance_zero_iff)
    from that len nz have "calc_trend e data col = Some (sxy pts / sxx pts)"
      by (simp add: calc_trend_def pts_def [symmetric])
    with ne have "calc_trend e data col = Some (ols_slope pts)" by (simp add: ols_slope_ratio)
    moreover have "\<forall>a' b'. sse pts (ols_intercept pts) (ols_slope pts) \<le> sse pts a' b'"
      using least_squares [OF ne nz] by blast
    ultimately show ?thesis by blast
  qed
  have c4: "pts = masked (zip (map (\<lambda>r. real_of_int (timestamp r - Min (timestamp ` set data)) / 3600) data)
               (map col data))"
  proof (cases "data = []")
    case True
    then show ?thesis by (simp add: pts_def trend_points_def hrs_def ts_min_def)
  next
    case False
    show ?thesis unfolding pts_def trend_points_def hrs_elapsed [OF False] ..
  qed
  from c1 c2 c4 show ?thesis unfolding pts_def by blast
qed

lemma rising_points:
  "trend_points rising temp_C = [(0, 20), (1, 22), (2, 24)]"
  "trend_points rising wind_speed_mps = []"
  "trend_points twins temp_C = [(0, 20), (0, 30)]"
  by (simp_all add: trend_points_def rising_def twins_def w_row_def hrs_def ts_min_def)

lemma rising_valid:
  "valid (map temp_C rising) = [20, 22, 24]"
  "valid (map wind_speed_mps rising) = []"
  "valid (map temp_C twins) = [20, 30]"
  by (simp_all add: rising_def twins_def w_row_def)

lemma rising_slope:
  "spec_variance [0, 1, 2] = 2 / 3" "ols_slope [(0, 20), (1, 22), (2, 24)] = 2"
  by (simp_all add: spec_variance_def avg_def ols_slope_def spec_covariance_def power2_eq_square)

theorem calc_trend_ols_witness:
  "calc_trend e0 rising temp_C = Some 2 \<and> calc_trend e0 rising wind_speed_mps = Some 0"
  using calc_trend_ols [of temp_C rising e0, THEN conjunct2, THEN conjunct1]
    calc_trend_ols [of wind_speed_mps rising e0, THEN conjunct1]
  by (simp add: rising_points rising_valid rising_slope)

text \<open>
  Claim C4 as stated fails where it says that every window with two samples or more
  gets the least-squares slope.  \<open>twins\<close> has two samples that are not NaN, both at one
  timestamp: there is no least-squares slope, the division is 0/0, and \<open>calc_trend\<close>
  returns NaN, which is not the ratio of covariance to variance (that ratio is no
  number, since the variance is zero).
\<close>

theorem calc_trend_same_timestamp:
  "length (valid (map temp_C twins)) = 2 \<and>
   spec_variance (map fst (trend_points twins temp_C)) = 0 \<and>
   calc_trend e0 twins temp_C = None \<and>
   calc_trend e0 twins temp_C \<noteq> Some (ols_slope (trend_points twins temp_C))"
  by (simp add: calc_trend_def rising_points rising_valid sxx_def spec_variance_def avg_def)

subsection \<open>Loading\<close>

lemma dropna_cells:
  "map cells (dropna p i rs) = filter (\<lambda>r. stamp_of p i r \<noteq> None) rs"
  by (induction rs) (auto split: option.splits)

lemma dropna_stamp:
  "row \<in> set (dropna p i rs) \<Longrightarrow> stamp_of p i (cells row) = Some (timestamp row)"
  by (induction rs) (auto split: option.splits)

lemma sort_key_sorts_by_timestamp: "sorts_by_timestamp (sort_key timestamp)"
  by (simp add: sorts_by_timestamp_def)

text \<open>What \<open>strip\<close> leaves: the name without the white space at its two ends.\<close>

lemma strip_trims:
  "\<exists>a b. s = a @ strip s @ b \<and> (\<forall>c \<in> set a. isspace c) \<and> (\<forall>c \<in> set b. isspace c) \<and>
     (strip s \<noteq> [] \<longrightarrow> \<not> isspace (hd (strip s)) \<and> \<not> isspace (last (strip s)))"
proof -
  define a where "a = takeWhile isspace s"
  define m where "m = dropWhile isspace s"
  define b where "b = rev (takeWhile isspace (rev m))"
  have s: "s = a @ m" by (simp add: a_def m_def)
  have "rev (takeWhile isspace (rev m) @ dropWhile isspace (rev m)) = m"
    by (simp only: takeWhile_dropWhile_id rev_rev_ident)
  then have "rev (dropWhile isspace (rev m)) @ rev (takeWhile isspace (rev m)) = m"
    by (simp only: rev_append)
  then have m: "m = strip s @ b" by (simp only: strip_def b_def m_def)
  have wa: "\<forall>c \<in> set a. isspace c" by (auto simp: a_def dest: set_takeWhileD)
  have wb: "\<forall>c \<in> set b. isspace c" by (auto simp: b_def dest: set_takeWhileD)
  have ends: "\<not> isspace (hd (strip s)) \<and> \<not> isspace (last (strip s))" if ne: "strip s \<noteq> []"
  proof -
    from ne have d: "dropWhile isspace (rev m) \<noteq> []" by (simp add: strip_def m_def)
    then have "\<not> isspace (hd (dropWhile isspace (rev m)))" by (rule hd_dropWhile)
    with d have l: "\<not> isspace (last (strip s))" by (simp add: strip_def m_def last_rev)
    from ne m have mne: "m \<noteq> []" by auto
    then have "\<not> isspace (hd m)" unfolding m_def by (rule hd_dropWhile)
    with m ne have "\<not> isspace (hd (strip s))" by (metis hd_append2)
    with l show ?thesis by simp
  qed
  from s m wa wb ends show ?thesis by auto
qed

lemma strip_examples:
  "strip (codes '' timestamp'' @ [160]) = codes ''timestamp''" "strip (codes ''aqi '') = codes ''aqi''"
  "codes ''aqi'' \<noteq> codes ''timestamp''"
  by (simp_all add: strip_def isspace_def codes_def)

lemma load_data_dup_csv:
  "load_data to_datetime0 (sort_key timestamp) (Inr dup_csv) =
    (Some \<lparr>columns = [codes ''timestamp'', codes ''aqi''],
       rows = [\<lparr>timestamp = 1704067200, cells = [Text ''2024-01-01 00:00:00'', Number 60]\<rparr>,
               \<lparr>timestamp = 1704070800, cells = [Text ''2024-01-01 01:00:00'', Number 40]\<rparr>,
               \<lparr>timestamp = 1704070800, cells = [Text ''2024-01-01 01:00:00'', Number 70]\<rparr>]\<rparr>, [])"
  by (simp add: load_data_def load_data_try_def dup_csv_def to_datetime0_def strip_examples
      positions_def cell_at_def stamp_of_def)

text \<open>
  The load succeeds exactly when the file can be read and, after trimming, exactly one
  column is named \<open>timestamp\<close>.
\<close>

lemma load_data_succeeds_iff:
  "(\<exists>out. load_data to_datetime sort_values read_csv = (Some out, [])) =
   (\<exists>df i. read_csv = Inr df \<and> positions (codes ''timestamp'') (map strip (columns df)) = [i])"
  by (cases read_csv)
    (auto simp: load_data_def load_data_try_def Let_def split: list.splits)

text \<open>
  Claim C9, as the code has it.  Whenever the load returns a table, the column names
  are the file's names with the white space trimmed, every row whose timestamp cannot
  be read is gone and every other row is kept, as often as it occurs, and the rows are
  in ascending order of their timestamps.  The order is not strict: rows with equal
  timestamps are all kept, the load removes no duplicate.
\<close>

theorem load_data_sorted:
  assumes "sorts_by_timestamp sort_values"
    and "load_data to_datetime sort_values read_csv = (Some out, msgs)"
  shows "\<exists>df i. read_csv = Inr df \<and>
           positions (codes ''timestamp'') (map strip (columns df)) = [i] \<and>
           columns out = map strip (columns df) \<and>
           sorted (map timestamp (rows out)) \<and>
           mset (map cells (rows out)) =
             mset (filter (\<lambda>r. stamp_of to_datetime i r \<noteq> None) (rows df)) \<and>
           (\<forall>row \<in> set (rows out). stamp_of to_datetime i (cells row) = Some (timestamp row)) \<and>
           msgs = []"
proof -
  from assms(2) obtain df where rd: "read_csv = Inr df"
    by (cases read_csv) (auto simp: load_data_def load_data_try_def)
  from assms(2) rd obtain i
    where pos: "positions (codes ''timestamp'') (map strip (columns df)) = [i]"
    by (auto simp: load_data_def load_data_try_def Let_def split: list.splits)
  from assms(2) rd pos have out: "out = \<lparr>columns = map strip (columns df),
      rows = sort_values (dropna to_datetime i (rows df))\<rparr>" and m: "msgs = []"
    by (auto simp: load_data_def load_data_try_def Let_def)
  from assms(1) have srt: "sorted (map timestamp (sort_values xs))"
    and perm: "mset (sort_values xs) = mset xs" for xs
    by (simp_all add: sorts_by_timestamp_def)
  have "mset (map cells (rows out)) = image_mset cells (mset (sort_values (dropna to_datetime i (rows df))))"
    by (simp add: out)
  also have "\<dots> = mset (map cells (dropna to_datetime i (rows df)))"
    by (simp only: perm mset_map)
  finally have ms: "mset (map cells (rows out)) =
      mset (filter (\<lambda>r. stamp_of to_datetime i r \<noteq> None) (rows df))"
    by (simp only: dropna_cells)
  have "set (rows out) = set (dropna to_datetime i (rows df))"
    using perm [of "dropna to_datetime i (rows df)"] by (simp add: out) (metis set_mset_mset)
  then have st: "\<forall>row \<in> set (rows out). stamp_of to_datetime i (cells row) = Some (timestamp row)"
    by (auto dest: dropna_stamp)
  have "sorted (map timestamp (rows out))" by (simp add: out srt)
  with rd pos out m ms st show ?thesis by auto
qed

theorem load_data_sorted_witness:
  "sorts_by_timestamp (sort_key timestamp :: cell raw_row list \<Rightarrow> cell raw_row list) \<and>
   map_option columns (fst (load_data to_datetime0 (sort_key timestamp) (Inr dup_csv)))
     = Some [codes ''timestamp'', codes ''aqi''] \<and>
   map_option (map timestamp \<circ> rows) (fst (load_data to_datetime0 (sort_key timestamp) (Inr dup_csv)))
     = Some [1704067200, 1704070800, 1704070800] \<and>
   map_option (map cells \<circ> rows) (fst (load_data to_datetime0 (sort_key timestamp) (Inr dup_csv)))
     = Some [[Text ''2024-01-01 00:00:00'', Number 60], [Text ''2024-01-01 01:00:00'', Number 40],
             [Text ''2024-01-01 01:00:00'', Number 70]]"
  using load_data_sorted [OF sort_key_sorts_by_timestamp load_data_dup_csv]
  by (simp add: load_data_dup_csv sort_key_sorts_by_timestamp)

text \<open>
  Claim C9 as stated fails: the table loaded from a file with two lines of the same
  timestamp has that timestamp twice, so its timestamps are neither free of duplicates
  nor strictly increasing.
\<close>

theorem load_data_keeps_duplicates:
  "map_option (map timestamp \<circ> rows) (fst (load_data to_datetime0 (sort_key timestamp) (Inr dup_csv)))
     = Some [1704067200, 1704070800, 1704070800] \<and>
   \<not> distinct [1704067200, 1704070800, 1704070800 :: int] \<and>
   \<not> sorted_wrt (<) [1704067200, 1704070800, 1704070800 :: int]"
  by (simp add: load_data_dup_csv)

subsection \<open>The forecast loops\<close>

lemma simple_loop_Inr:
  "simple_loop body ds acc = Inr fs \<Longrightarrow> \<exists>recs. fs = acc @ recs \<and> map body ds = map Inr recs"
proof (induction ds arbitrary: acc)
  case Nil
  then show ?case by simp
next
  case (Cons d ds)
  then obtain fc where b: "body d = Inr fc" and r: "simple_loop body ds (acc @ [fc]) = Inr fs"
    by (auto split: sum.splits)
  from Cons.IH [OF r] obtain recs where "fs = (acc @ [fc]) @ recs" "map body ds = map Inr recs"
    by blast
  with b have "fs = acc @ (fc # recs) \<and> map body (d # ds) = map Inr (fc # recs)" by simp
  then show ?case by blast
qed

lemma simple_loop_total:
  "map body ds = map Inr recs \<Longrightarrow> simple_loop body ds acc = Inr (acc @ recs)"
  by (induction ds arbitrary: acc recs) auto

lemma simple_loop_raises:
  "d \<in> set ds \<Longrightarrow> body d = Inl x \<Longrightarrow> \<exists>y. simple_loop body ds acc = Inl y"
  by (induction ds arbitrary: acc) (auto split: sum.splits)


lemma length_upto1: "length [1..days] = nat days"
  by simp

lemma nth_upto1: "i < nat days \<Longrightarrow> [1..days] ! i = 1 + int i"
  by simp

lemma forecast_simple_Some:
  assumes "forecast_simple sort_values e df days = (Some fs, msgs)"
  shows "msgs = [] \<and> length fs = nat days \<and>
     (\<forall>i<nat days. simple_day e (sort_values (rows df)) (1 + int i) = Inr (fs ! i))"
proof -
  from assms have t: "forecast_simple_try sort_values e df days = Inr fs" and m: "msgs = []"
    by (auto simp: forecast_simple_def split: sum.splits)
  then have "simple_loop (simple_day e (sort_values (rows df))) [1..days] [] = Inr fs"
    by (auto simp: forecast_simple_try_def Let_def split: if_splits)
  from simple_loop_Inr [OF this]
  have mp: "map (simple_day e (sort_values (rows df))) [1..days] = map Inr fs" by simp
  then have "length [1..days] = length fs" by (metis length_map)
  then have len: "length fs = nat days" by simp
  have "simple_day e (sort_values (rows df)) (1 + int i) = Inr (fs ! i)" if "i < nat days" for i
  proof -
    from that have "map (simple_day e (sort_values (rows df))) [1..days] ! i =
        simple_day e (sort_values (rows df)) ([1..days] ! i)" by simp
    moreover from that len have "map Inr fs ! i = (Inr (fs ! i) :: exn + daily_fc)" by simp
    ultimately show ?thesis using mp that by simp
  qed
  with m len show ?thesis by blast
qed




lemmas simple_eval = forecast_simple_def forecast_simple_try_def aqi_columns_def a_row_def e0_def
     simple_day_def simple_lookup_def daily_aqi_def daily_temp_def groupby_def groupby_mean_def
     dayofweek_def getitem_def std_def mean_def avg_def series_get_def
     uniform_def Let_def recent_aqi_def recent_temp_def recent_aqi_last3_def aqi_trend_def
     simple_recent_def tail_def predicted_aqi_def predicted_temp_def clip_def



lemma fri_sat_1:
  "forecast_simple (sort_key timestamp) e0 fri_sat 1 =
     (Some [\<lparr>fc_day = 1, fc_aqi = Some 50, fc_temp = Some 30, fc_date = 86400\<rparr>], [])"
  by (simp add: fri_sat_def simple_eval upto.simps)

lemma fri_sat_2:
  "forecast_simple (sort_key timestamp) e0 fri_sat 2 = (None, [Forecast_error OverflowError])"
  by (simp add: fri_sat_def simple_eval upto.simps)




lemma no_temp_3:
  "forecast_weather (sort_key timestamp) e0 no_temp 3 = ((None, None), [Forecast_error KeyError])"
  by (simp add: forecast_weather_def forecast_weather_try_def no_temp_def)




text \<open>
  Claim C6.  In both forecasters an exception raised anywhere in the computation is
  caught by the one handler around the whole body: the call hands the exception to
  \<open>st.error\<close> as a message and returns \<open>None\<close> (the hourly one \<open>None, None\<close>), with
  no record.  This holds too when a round of the loop raises after earlier rounds have
  appended their records.  A call that returns a sequence returns all \<open>days\<close> records
  and shows no message.
\<close>

theorem forecast_exception_absent:
  "(forecast_simple_try sort_values e df days = Inl x \<longrightarrow>
      forecast_simple sort_values e df days = (None, [Forecast_error x])) \<and>
   (forecast_weather_try sort_w e dfw days = Inl x \<longrightarrow>
      forecast_weather sort_w e dfw days = ((None, None), [Forecast_error x])) \<and>
   (set [''timestamp'', ''aqi'', ''temp''] \<subseteq> set (columns df) \<and> day \<in> set [1..days] \<and>
    simple_day e (sort_values (rows df)) day = Inl x \<longrightarrow>
      (\<exists>y. forecast_simple sort_values e df days = (None, [Forecast_error y]))) \<and>
   (\<forall>fs msgs. forecast_simple sort_values e df days = (Some fs, msgs) \<longrightarrow>
      msgs = [] \<and> length fs = nat days \<and>
      (\<forall>i<nat days. simple_day e (sort_values (rows df)) (1 + int i) = Inr (fs ! i))) \<and>
   (\<forall>r msgs. forecast_weather sort_w e dfw days = (r, msgs) \<longrightarrow>
      (r = (None, None) \<and> (\<exists>y. msgs = [Forecast_error y])) \<or>
      (\<exists>fs tr. r = (Some fs, Some tr) \<and> msgs = [] \<and> length fs = nat days))"
proof -
  have a: "forecast_simple_try sort_values e df days = Inl x \<longrightarrow>
      forecast_simple sort_values e df days = (None, [Forecast_error x])"
    by (simp add: forecast_simple_def)
  have b: "forecast_weather_try sort_w e dfw days = Inl x \<longrightarrow>
      forecast_weather sort_w e dfw days = ((None, None), [Forecast_error x])"
    by (simp add: forecast_weather_def)
  have c: "\<exists>y. forecast_simple sort_values e df days = (None, [Forecast_error y])"
    if "set [''timestamp'', ''aqi'', ''temp''] \<subseteq> set (columns df)" "day \<in> set [1..days]"
      "simple_day e (sort_values (rows df)) day = Inl x"
  proof -
    from that(2) that(3) obtain y
      where "simple_loop (simple_day e (sort_values (rows df))) [1..days] [] = Inl y"
      using simple_loop_raises [of day "[1..days]" "simple_day e (sort_values (rows df))" x "[]"]
      by blast
    with that(1) have "forecast_simple_try sort_values e df days = Inl y"
      by (simp add: forecast_simple_try_def Let_def)
    then show ?thesis by (auto simp: forecast_simple_def)
  qed
  have d: "msgs = [] \<and> length fs = nat days \<and>
      (\<forall>i<nat days. simple_day e (sort_values (rows df)) (1 + int i) = Inr (fs ! i))"
    if "forecast_simple sort_values e df days = (Some fs, msgs)" for fs msgs
    using forecast_simple_Some [OF that] .
  have f: "(r = (None, None) \<and> (\<exists>y. msgs = [Forecast_error y])) \<or>
      (\<exists>fs tr. r = (Some fs, Some tr) \<and> msgs = [] \<and> length fs = nat days)"
    if "forecast_weather sort_w e dfw days = (r, msgs)" for r msgs
    using that
    by (auto simp: forecast_weather_def forecast_weather_try_def Let_def split: sum.splits if_splits)
  from a b c d f show ?thesis by blast
qed

theorem forecast_exception_absent_witness:
  "simple_day e0 (sort_key timestamp (rows fri_sat)) 1 =
     Inr \<lparr>fc_day = 1, fc_aqi = Some 50, fc_temp = Some 30, fc_date = 86400\<rparr> \<and>
   simple_day e0 (sort_key timestamp (rows fri_sat)) 2 = Inl OverflowError \<and>
   forecast_simple (sort_key timestamp) e0 fri_sat 2 = (None, [Forecast_error OverflowError]) \<and>
   forecast_simple (sort_key timestamp) e0 fri_sat 1 =
     (Some [\<lparr>fc_day = 1, fc_aqi = Some 50, fc_temp = Some 30, fc_date = 86400\<rparr>], []) \<and>
   forecast_weather (sort_key timestamp) e0 no_temp 3 = ((None, None), [Forecast_error KeyError])"
  using forecast_exception_absent [of "sort_key timestamp" e0 fri_sat 2 OverflowError
      "sort_key timestamp" no_temp 2]
  by (simp add: fri_sat_1 fri_sat_2 no_temp_3) (simp add: fri_sat_def simple_eval)

subsection \<open>The seasonal statistics and their fallback\<close>

lemma map_of_keyed: "map_of (map (\<lambda>k. (k, f k)) ks) k = (if k \<in> set ks then Some (f k) else None)"
  by (induction ks) auto

lemma map_of_groupby:
  "map_of (groupby key col rs) k =
     (if k \<in> key ` set rs then Some (map col (filter (\<lambda>r. key r = k) rs)) else None)"
  by (simp add: groupby_def map_of_keyed)

lemma keys_groupby: "set (map fst (groupby key col rs)) = key ` set rs"
  by (simp add: groupby_def comp_def)

lemma map_of_daily_aqi:
  "map_of (daily_aqi rs) k =
     (if k \<in> (\<lambda>r. dayofweek (timestamp r)) ` set rs
      then Some (mean (map aqi (filter (\<lambda>r. dayofweek (timestamp r) = k) rs)),
                 std (map aqi (filter (\<lambda>r. dayofweek (timestamp r) = k) rs)))
      else None)"
  by (simp add: daily_aqi_def map_of_map map_of_groupby)

lemma keys_daily_aqi: "set (map fst (daily_aqi rs)) = (\<lambda>r. dayofweek (timestamp r)) ` set rs"
  by (simp add: daily_aqi_def comp_def case_prod_unfold keys_groupby [simplified comp_def, simplified])

lemma map_of_groupby_mean:
  "map_of (groupby_mean key col rs) k =
     (if k \<in> key ` set rs then Some (mean (map col (filter (\<lambda>r. key r = k) rs))) else None)"
  by (simp add: groupby_mean_def map_of_map map_of_groupby)

lemma simple_lookup_unseen:
  assumes "dow \<notin> (\<lambda>r. dayofweek (timestamp r)) ` set df_sorted"
  shows "simple_lookup df_sorted dow =
     Inr (mean (map aqi (tail 336 df_sorted)), std (map aqi (tail 336 df_sorted)),
          mean (map temp (tail 336 df_sorted)))"
  using assms
  by (simp add: simple_lookup_def keys_daily_aqi series_get_def daily_temp_def map_of_groupby_mean
      recent_aqi_def recent_temp_def simple_recent_def del: set_map)

lemma simple_lookup_seen:
  assumes "dow \<in> (\<lambda>r. dayofweek (timestamp r)) ` set df_sorted"
  shows "simple_lookup df_sorted dow =
     Inr (mean (map aqi (filter (\<lambda>r. dayofweek (timestamp r) = dow) df_sorted)),
          std (map aqi (filter (\<lambda>r. dayofweek (timestamp r) = dow) df_sorted)),
          mean (map temp (filter (\<lambda>r. dayofweek (timestamp r) = dow) df_sorted)))"
  using assms
  by (simp add: simple_lookup_def keys_daily_aqi series_get_def daily_temp_def map_of_groupby_mean
      getitem_def map_of_daily_aqi del: set_map)

lemma simple_day_std:
  assumes "simple_lookup df_sorted (dayofweek (now e (nat (day - 1)) + day * 86400)) = Inr (b, Some s, t)"
  shows "simple_day e df_sorted day =
     Inr \<lparr>fc_day = day,
          fc_aqi = clip (predicted_aqi b (aqi_trend df_sorted) day
                     (Some ((2 * uniform01 e (2 * nat (day - 1)) - 1) * (0.2 * s)))) 10 500,
          fc_temp = clip (predicted_temp t (Some (2 * uniform01 e (2 * nat (day - 1) + 1) - 1))) 15 45,
          fc_date = now e (nat (day - 1)) + day * 86400\<rparr>"
  using assms by (simp add: simple_day_def Let_def uniform_def algebra_simps)

lemma simple_day_nan:
  assumes "simple_lookup df_sorted (dayofweek (now e (nat (day - 1)) + day * 86400)) = Inr (b, None, t)"
  shows "simple_day e df_sorted day = Inl OverflowError"
  using assms by (simp add: simple_day_def Let_def uniform_def)

lemma std_Some_iff: "(\<exists>s. std ys = Some s) = (2 \<le> length (valid ys))"
  by (auto simp: std_def Let_def)

lemma std_None_iff: "(std ys = None) = (length (valid ys) < 2)"
  by (auto simp: std_def Let_def)

lemma std_nonneg: "std ys = Some s \<Longrightarrow> 0 \<le> s"
  by (auto simp: std_def Let_def split: if_splits intro!: divide_nonneg_nonneg sum_list_nonneg)

lemma tail_tail: "m \<le> n \<Longrightarrow> tail m (tail n xs) = tail m xs"
proof -
  assume mn: "m \<le> n"
  have "length (drop (length xs - n) xs) - m + (length xs - n) = length xs - m"
    using mn by (cases "n \<le> length xs") auto
  then show ?thesis unfolding tail_def drop_drop by (rule arg_cong)
qed

lemma two_thu_day1:
  "target_dow e0 1 \<notin> dows (rows two_thu)"
  "simple_lookup (rows two_thu) (target_dow e0 1) = Inr (Some 50, std [Some 40, Some 60], Some 30)"
  "simple_day e0 (rows two_thu) 1 =
     Inr \<lparr>fc_day = 1, fc_aqi = Some 50, fc_temp = Some 30, fc_date = 86400\<rparr>"
  by (simp_all add: two_thu_def target_dow_def dows_def simple_eval)

lemma single_day1:
  "target_dow e0 1 \<notin> dows (rows single)"
  "simple_lookup (rows single) (target_dow e0 1) = Inr (Some 50, None, Some 30)"
  "simple_day e0 (rows single) 1 = Inl OverflowError"
  by (simp_all add: single_def target_dow_def dows_def simple_eval)

text \<open>
  Claim C7, as the code has it.  For a future day whose day of the week never occurs in
  the history, the lookup of the seasonal statistics raises nothing and gives the mean
  and the standard deviation of the AQI, and the mean of the temperature, over the last
  336 rows.  The round then completes with these values when the last 336 rows hold at
  least two AQI values that are not NaN.  With fewer the standard deviation is NaN and
  the noise draw with it as bound raises \<open>OverflowError\<close>.
\<close>

theorem fallback_unseen_day:
  assumes "target_dow e day \<notin> dows df_sorted"
  shows "simple_lookup df_sorted (target_dow e day) =
           Inr (mean (map aqi (tail 336 df_sorted)), std (map aqi (tail 336 df_sorted)),
                mean (map temp (tail 336 df_sorted))) \<and>
         (2 \<le> length (valid (map aqi (tail 336 df_sorted))) \<longrightarrow>
            (\<exists>s. std (map aqi (tail 336 df_sorted)) = Some s \<and>
               simple_day e df_sorted day =
                 Inr \<lparr>fc_day = day,
                      fc_aqi = clip (predicted_aqi (mean (map aqi (tail 336 df_sorted)))
                                 (aqi_trend df_sorted) day
                                 (Some ((2 * uniform01 e (2 * nat (day - 1)) - 1) * (0.2 * s)))) 10 500,
                      fc_temp = clip (predicted_temp (mean (map temp (tail 336 df_sorted)))
                                  (Some (2 * uniform01 e (2 * nat (day - 1) + 1) - 1))) 15 45,
                      fc_date = now e (nat (day - 1)) + day * 86400\<rparr>)) \<and>
         (length (valid (map aqi (tail 336 df_sorted))) < 2 \<longrightarrow>
            simple_day e df_sorted day = Inl OverflowError)"
proof -
  from assms have l: "simple_lookup df_sorted (dayofweek (now e (nat (day - 1)) + day * 86400)) =
           Inr (mean (map aqi (tail 336 df_sorted)), std (map aqi (tail 336 df_sorted)),
                mean (map temp (tail 336 df_sorted)))"
    unfolding target_dow_def dows_def by (rule simple_lookup_unseen)
  have a: "\<exists>s. std (map aqi (tail 336 df_sorted)) = Some s \<and>
               simple_day e df_sorted day =
                 Inr \<lparr>fc_day = day,
                      fc_aqi = clip (predicted_aqi (mean (map aqi (tail 336 df_sorted)))
                                 (aqi_trend df_sorted) day
                                 (Some ((2 * uniform01 e (2 * nat (day - 1)) - 1) * (0.2 * s)))) 10 500,
                      fc_temp = clip (predicted_temp (mean (map temp (tail 336 df_sorted)))
                                  (Some (2 * uniform01 e (2 * nat (day - 1) + 1) - 1))) 15 45,
                      fc_date = now e (nat (day - 1)) + day * 86400\<rparr>"
    if "2 \<le> length (valid (map aqi (tail 336 df_sorted)))"
  proof -
    from that obtain s where s: "std (map aqi (tail 336 df_sorted)) = Some s"
      using std_Some_iff by blast
    with l show ?thesis using simple_day_std [of df_sorted e day _ s] by simp
  qed
  have b: "simple_day e df_sorted day = Inl OverflowError"
    if "length (valid (map aqi (tail 336 df_sorted))) < 2"
  proof -
    from that have "std (map aqi (tail 336 df_sorted)) = None" by (simp add: std_None_iff)
    with l show ?thesis using simple_day_nan [of df_sorted e day] by simp
  qed
  from l a b show ?thesis unfolding target_dow_def by blast
qed

theorem fallback_unseen_day_witness:
  "target_dow e0 1 \<notin> dows (rows two_thu) \<and>
   simple_lookup (rows two_thu) (target_dow e0 1) = Inr (Some 50, std [Some 40, Some 60], Some 30) \<and>
   simple_day e0 (rows two_thu) 1 =
     Inr \<lparr>fc_day = 1, fc_aqi = Some 50, fc_temp = Some 30, fc_date = 86400\<rparr>"
  using fallback_unseen_day [of e0 1 "rows two_thu"] by (simp add: two_thu_day1)

text \<open>
  Claim C7 as stated fails where it says that the fallback path completes normally for
  every such day.  The one row of \<open>single\<close> is on a Thursday and the first day ahead is a
  Friday: the lookup falls back to the recent window, whose standard deviation over one
  value is NaN, and the round raises.
\<close>

theorem fallback_single_row_raises:
  "target_dow e0 1 \<notin> dows (rows single) \<and>
   simple_lookup (rows single) (target_dow e0 1) = Inr (Some 50, None, Some 30) \<and>
   simple_day e0 (rows single) 1 = Inl OverflowError"
  by (simp add: single_day1)

subsection \<open>The predicted AQI\<close>

lemma noise_bound:
  assumes "0 \<le> u" "u < 1" "0 \<le> (s::real)"
  shows "\<bar>(2 * u - 1) * (0.2 * s)\<bar> \<le> 0.2 * s"
proof -
  from assms have "\<bar>2 * u - 1\<bar> \<le> 1" by (simp add: abs_le_iff)
  then have "\<bar>2 * u - 1\<bar> * (0.2 * s) \<le> 1 * (0.2 * s)"
    using assms(3) by (intro mult_right_mono) auto
  with assms(3) show ?thesis by (simp add: abs_mult)
qed

text \<open>
  Claim C1, as the code has it.  The seasonal sample of a round is the AQI column of the
  rows on the target day of the week when that day occurs in the history, and of the
  last 336 rows when it does not.  Whenever mean and standard deviation of the sample
  and the means of the last 72 and the last 336 rows are numbers, the round completes
  and its predicted AQI before clipping is the mean of the sample plus the trend times
  the day index times 0.3 plus a noise of at most 0.2 times the standard deviation in
  absolute value, the trend being the mean of the last 72 rows minus the mean of the
  last 336; this is the record the forecast holds for that day.  In particular with
  noise 0, mean 80, recent means 75 and 78, day 1, the prediction is 80.9.
\<close>

theorem predicted_aqi_seasonal:
  assumes sample: "sample = (if target_dow e day \<in> dows df_sorted
                      then map aqi (on_dow (target_dow e day) df_sorted)
                      else map aqi (tail 336 df_sorted))"
    and m: "mean sample = Some m" and s: "std sample = Some s"
    and r72: "mean (map aqi (tail 72 df_sorted)) = Some r72"
    and r336: "mean (map aqi (tail 336 df_sorted)) = Some r336"
    and u: "0 \<le> uniform01 e (2 * nat (day - 1))" "uniform01 e (2 * nat (day - 1)) < 1"
  shows "\<exists>noise fc. \<bar>noise\<bar> \<le> 0.2 * s \<and>
           noise = (2 * uniform01 e (2 * nat (day - 1)) - 1) * (0.2 * s) \<and>
           simple_day e df_sorted day = Inr fc \<and>
           fc_aqi fc = clip (Some (m + (r72 - r336) * real_of_int day * 0.3 + noise)) 10 500 \<and>
           (uniform01 e (2 * nat (day - 1)) = 1 / 2 \<and> m = 80 \<and> r336 = 75 \<and> r72 = 78 \<and> day = 1 \<longrightarrow>
              fc_aqi fc = Some (809 / 10)) \<and>
           (\<forall>sort_values df days fs msgs.
              df_sorted = sort_values (rows df) \<and> 1 \<le> day \<and> day \<le> days \<and>
              forecast_simple sort_values e df days = (Some fs, msgs) \<longrightarrow>
              fs ! nat (day - 1) = fc)"
proof -
  define u where "u = uniform01 e (2 * nat (day - 1))"
  define noise where "noise = (2 * u - 1) * (0.2 * s)"
  define t where "t = (if target_dow e day \<in> dows df_sorted
                      then mean (map temp (on_dow (target_dow e day) df_sorted))
                      else mean (map temp (tail 336 df_sorted)))"
  have l: "simple_lookup df_sorted (dayofweek (now e (nat (day - 1)) + day * 86400)) =
      Inr (Some m, Some s, t)"
  proof (cases "target_dow e day \<in> dows df_sorted")
    case True
    then show ?thesis
      using simple_lookup_seen [of "target_dow e day" df_sorted] sample m s
      by (simp add: target_dow_def dows_def on_dow_def t_def)
  next
    case False
    then show ?thesis
      using simple_lookup_unseen [of "target_dow e day" df_sorted] sample m s
      by (simp add: target_dow_def dows_def on_dow_def t_def)
  qed
  define fc where "fc = \<lparr>fc_day = day,
          fc_aqi = clip (predicted_aqi (Some m) (aqi_trend df_sorted) day (Some noise)) 10 500,
          fc_temp = clip (predicted_temp t (Some (2 * uniform01 e (2 * nat (day - 1) + 1) - 1))) 15 45,
          fc_date = now e (nat (day - 1)) + day * 86400\<rparr>"
  have d: "simple_day e df_sorted day = Inr fc"
    using simple_day_std [OF l] by (simp add: fc_def noise_def u_def)
  have tr: "aqi_trend df_sorted = Some (r72 - r336)"
    by (simp add: aqi_trend_def recent_aqi_last3_def recent_aqi_def simple_recent_def tail_tail
        r72 r336)
  have q: "fc_aqi fc = clip (Some (m + (r72 - r336) * real_of_int day * 0.3 + noise)) 10 500"
    by (simp add: fc_def predicted_aqi_def tr)
  have b: "\<bar>noise\<bar> \<le> 0.2 * s"
    unfolding noise_def u_def using u std_nonneg [OF s] by (rule noise_bound)
  have ex: "fc_aqi fc = Some (809 / 10)"
    if "uniform01 e (2 * nat (day - 1)) = 1 / 2 \<and> m = 80 \<and> r336 = 75 \<and> r72 = 78 \<and> day = 1"
  proof -
    from that have "u = 1 / 2" unfolding u_def by blast
    then have "noise = 0" by (simp add: noise_def)
    with that show ?thesis by (simp add: q clip_def)
  qed
  have f: "fs ! nat (day - 1) = fc"
    if "df_sorted = sort_values (rows df) \<and> 1 \<le> day \<and> day \<le> days \<and>
        forecast_simple sort_values e df days = (Some fs, msgs)" for sort_values df days fs msgs
  proof -
    from that have h: "forecast_simple sort_values e df days = (Some fs, msgs)" by simp
    from that have "nat (day - 1) < nat days" by auto
    with forecast_simple_Some [OF h]
    have "simple_day e (sort_values (rows df)) (1 + int (nat (day - 1))) = Inr (fs ! nat (day - 1))"
      by blast
    with that d show ?thesis by simp
  qed
  from b d q ex f show ?thesis unfolding noise_def u_def by blast
qed

lemma valid_append: "valid (xs @ ys) = valid xs @ valid ys"
  by (induction xs) (auto split: option.splits)

lemma valid_replicate: "valid (replicate n (Some v)) = replicate n v"
  by (induction n) auto

lemma sqrt_100: "sqrt 100 = 10"
  using real_sqrt_abs [of 10] by simp

lemma spec_example_stats:
  "target_dow e_sun 1 = 0"
  "0 \<in> dows spec_example"
  "map aqi (on_dow 0 spec_example) = [Some 90, Some 70, Some 80]"
  "mean [Some 90, Some 70, Some 80] = Some 80"
  "std [Some 90, Some 70, Some 80] = Some 10"
  "mean (map aqi (tail 72 spec_example)) = Some 78"
  "mean (map aqi (tail 336 spec_example)) = Some 75"
  by (simp_all add: spec_example_def target_dow_def e_sun_def dows_def on_dow_def a_row_def
      dayofweek_def mean_def std_def avg_def tail_def valid_append valid_replicate
      sum_list_replicate sqrt_100 power2_eq_square)

theorem predicted_aqi_seasonal_witness:
  "mean (map aqi (on_dow (target_dow e_sun 1) spec_example)) = Some 80 \<and>
   std (map aqi (on_dow (target_dow e_sun 1) spec_example)) = Some 10 \<and>
   mean (map aqi (tail 72 spec_example)) = Some 78 \<and>
   mean (map aqi (tail 336 spec_example)) = Some 75 \<and>
   map_sum id fc_aqi (simple_day e_sun spec_example 1) = Inr (Some (809 / 10))"
proof -
  have sample: "map aqi (on_dow 0 spec_example) =
      (if target_dow e_sun 1 \<in> dows spec_example
       then map aqi (on_dow (target_dow e_sun 1) spec_example)
       else map aqi (tail 336 spec_example))"
    by (simp add: spec_example_stats)
  have m: "mean (map aqi (on_dow 0 spec_example)) = Some 80"
    and s: "std (map aqi (on_dow 0 spec_example)) = Some 10"
    by (simp_all add: spec_example_stats)
  have u: "0 \<le> uniform01 e_sun (2 * nat (1 - 1))" "uniform01 e_sun (2 * nat (1 - 1)) < 1"
    by (simp_all add: e_sun_def)
  from predicted_aqi_seasonal [OF sample m s spec_example_stats(6) spec_example_stats(7) u]
  obtain fc where d: "simple_day e_sun spec_example 1 = Inr fc"
    and i: "uniform01 e_sun (2 * nat (1 - 1)) = 1 / 2 \<and> (80::real) = 80 \<and> (75::real) = 75 \<and>
        (78::real) = 78 \<and> (1::int) = 1 \<longrightarrow> fc_aqi fc = Some (809 / 10)"
    by blast
  from i have "fc_aqi fc = Some (809 / 10)" by (simp add: e_sun_def)
  with d show ?thesis by (simp add: spec_example_stats)
qed

text \<open>
  Claim C1 as stated fails where it takes the mean of the target day of the week for
  every history table.  \<open>two_thu\<close> has no row on a Friday, the first day ahead: there is
  no Friday mean, the formula of the claim gives NaN, and the forecaster predicts 50,
  the mean of the recent window.
\<close>

theorem predicted_aqi_unseen_day:
  "target_dow e0 1 \<notin> dows (rows two_thu) \<and>
   mean (map aqi (on_dow (target_dow e0 1) (rows two_thu))) = None \<and>
   predicted_aqi (mean (map aqi (on_dow (target_dow e0 1) (rows two_thu))))
     (aqi_trend (rows two_thu)) 1 (Some 0) = None \<and>
   map_sum id fc_aqi (simple_day e0 (rows two_thu) 1) = Inr (Some 50)"
  by (simp add: two_thu_day1 predicted_aqi_def) (simp add: two_thu_def on_dow_def target_dow_def simple_eval)

subsection \<open>Clipping\<close>

lemma clip_bounds:
  "lo \<le> hi \<Longrightarrow> clip p lo hi = Some x \<Longrightarrow> lo \<le> x \<and> x \<le> hi"
  by (auto simp: clip_def)

lemma clip_Some:
  "lo \<le> hi \<Longrightarrow> \<exists>w. clip (Some v) lo hi = Some w \<and> lo \<le> w \<and> w \<le> hi \<and>
     (v < lo \<longrightarrow> w = lo) \<and> (hi < v \<longrightarrow> w = hi) \<and> (lo \<le> v \<and> v \<le> hi \<longrightarrow> w = v)"
  by (auto simp: clip_def)

lemma simple_day_clipped:
  "simple_day e df_sorted day = Inr fc \<Longrightarrow>
     \<exists>p q. fc_aqi fc = clip p 10 500 \<and> fc_temp fc = clip q 15 45"
  by (auto simp: simple_day_def Let_def split: sum.splits prod.splits)

lemma forecast_simple_member:
  assumes "forecast_simple sort_values e df days = (Some fs, msgs)" "fc \<in> set fs"
  shows "\<exists>day. simple_day e (sort_values (rows df)) day = Inr fc"
proof -
  from assms(2) obtain i where i: "i < length fs" "fs ! i = fc" by (auto simp: in_set_conv_nth)
  with forecast_simple_Some [OF assms(1)] show ?thesis by auto
qed

lemma forecast_weather_member:
  assumes "forecast_weather sort_w e dfw days = ((Some fs, tr), msgs)" "fc \<in> set fs"
  shows "\<exists>day. fc = weather_day e (sort_w (rows dfw)) day"
  using assms
  by (auto simp: forecast_weather_def forecast_weather_try_def Let_def split: sum.splits if_splits)

lemmas weather_eval = pred_t_def pred_h_def pred_w_def base_temp_def base_hum_def base_wind_def
  t_seas_def h_seas_def w_seas_def weekly_t_def weekly_h_def hr_off_def last_hrs_def
  temp_slope_def hum_slope_def wind_slope_def calc_trend_def trend_points_def hrs_def
  weather_recent_def ts_max_def ts_min_def hourly_temp_def hourly_humidity_def hourly_wind_def
  weekly_temp_def weekly_hum_def groupby_mean_def groupby_def series_get_def num_sub_def
  normal_def mean_def avg_def tail_def hour_def dayofweek_def weather_dow_def w_row_def e0_def
  Let_def

lemma hot_1:
  "forecast_simple (sort_key timestamp) e0 hot 1 =
     (Some [\<lparr>fc_day = 1, fc_aqi = Some 500, fc_temp = Some 45, fc_date = 86400\<rparr>], [])"
  by (simp add: hot_def simple_eval upto.simps)

lemma extreme_pred:
  "pred_t e0 [w_row 0 (Some 50) (Some 10) (Some 30)] day hr = Some 50"
  "pred_h e0 [w_row 0 (Some 50) (Some 10) (Some 30)] day hr = Some 10"
  "pred_w e0 [w_row 0 (Some 50) (Some 10) (Some 30)] day hr = Some 30"
  by (simp_all add: weather_eval)

lemma extreme_1:
  "forecast_weather (sort_key timestamp) e0 extreme 1 =
     ((Some [\<lparr>fc_day = 1, temps = replicate 24 (Some 45), humidity = replicate 24 (Some 20),
               wind = replicate 24 (Some 25)\<rparr>],
       Some \<lparr>temp_trend = Some 0, humidity_trend = Some 0, wind_trend = Some 0\<rparr>), [])"
  by (simp add: forecast_weather_def forecast_weather_try_def extreme_def weather_columns_def
      weather_day_def extreme_pred clip_def map_replicate_const upto.simps Let_def)
     (simp add: weather_eval)

lemma temp_missing_pred:
  "pred_t e0 [w_row 0 None (Some 50) (Some 3)] day hr = None"
  "pred_h e0 [w_row 0 None (Some 50) (Some 3)] day hr = Some 50"
  "pred_w e0 [w_row 0 None (Some 50) (Some 3)] day hr = Some 3"
  by (simp_all add: weather_eval)

lemma temp_missing_1:
  "forecast_weather (sort_key timestamp) e0 temp_missing 1 =
     ((Some [\<lparr>fc_day = 1, temps = replicate 24 None, humidity = replicate 24 (Some 50),
               wind = replicate 24 (Some 3)\<rparr>],
       Some \<lparr>temp_trend = Some 0, humidity_trend = Some 0, wind_trend = Some 0\<rparr>), [])"
  by (simp add: forecast_weather_def forecast_weather_try_def temp_missing_def weather_columns_def
      weather_day_def temp_missing_pred clip_def map_replicate_const upto.simps Let_def)
     (simp add: weather_eval)

text \<open>
  Claim C3, as the code has it.  Every value in the records either forecaster returns is
  a clipped prediction.  Whenever it is a number it lies within the bounds of its
  quantity: AQI in [10, 500], temperature in [15, 45], humidity in [20, 100], wind speed
  in [0, 25]; a prediction below the interval comes out as the lower bound, one above it
  as the upper bound.  A prediction that is NaN stays NaN through the clipping.
\<close>

theorem clipped_bounds:
  "(\<forall>fs msgs fc x. forecast_simple sort_values e df days = (Some fs, msgs) \<and> fc \<in> set fs \<longrightarrow>
      (fc_aqi fc = Some x \<longrightarrow> 10 \<le> x \<and> x \<le> 500) \<and>
      (fc_temp fc = Some x \<longrightarrow> 15 \<le> x \<and> x \<le> 45)) \<and>
   (\<forall>fs tr msgs fc x. forecast_weather sort_w e dfw days = ((Some fs, tr), msgs) \<and> fc \<in> set fs \<longrightarrow>
      (Some x \<in> set (temps fc) \<longrightarrow> 15 \<le> x \<and> x \<le> 45) \<and>
      (Some x \<in> set (humidity fc) \<longrightarrow> 20 \<le> x \<and> x \<le> 100) \<and>
      (Some x \<in> set (wind fc) \<longrightarrow> 0 \<le> x \<and> x \<le> 25)) \<and>
   (\<forall>v lo hi. lo \<le> hi \<longrightarrow>
      (\<exists>w. clip (Some v) lo hi = Some w \<and> lo \<le> w \<and> w \<le> hi \<and>
         (v < lo \<longrightarrow> w = lo) \<and> (hi < v \<longrightarrow> w = hi) \<and> (lo \<le> v \<and> v \<le> hi \<longrightarrow> w = v))) \<and>
   (\<forall>lo hi. clip None lo hi = None)"
proof (intro conjI allI impI)
  fix fs msgs fc x
  assume h: "forecast_simple sort_values e df days = (Some fs, msgs) \<and> fc \<in> set fs"
  then obtain day where "simple_day e (sort_values (rows df)) day = Inr fc"
    using forecast_simple_member by blast
  from simple_day_clipped [OF this] obtain p q
    where pq: "fc_aqi fc = clip p 10 500" "fc_temp fc = clip q 15 45" by blast
  { assume "fc_aqi fc = Some x"
    with pq have "clip p 10 500 = Some x" by simp
    from clip_bounds [OF _ this] show "10 \<le> x" "x \<le> 500" by simp_all }
  { assume "fc_temp fc = Some x"
    with pq have "clip q 15 45 = Some x" by simp
    from clip_bounds [OF _ this] show "15 \<le> x" "x \<le> 45" by simp_all }
next
  fix fs tr msgs fc x
  assume h: "forecast_weather sort_w e dfw days = ((Some fs, tr), msgs) \<and> fc \<in> set fs"
  then obtain day where fc: "fc = weather_day e (sort_w (rows dfw)) day"
    using forecast_weather_member by blast
  { assume "Some x \<in> set (temps fc)"
    then obtain p where "clip p 15 45 = Some x" by (auto simp: fc weather_day_def)
    from clip_bounds [OF _ this] show "15 \<le> x" "x \<le> 45" by simp_all }
  { assume "Some x \<in> set (humidity fc)"
    then obtain p where "clip p 20 100 = Some x" by (auto simp: fc weather_day_def)
    from clip_bounds [OF _ this] show "20 \<le> x" "x \<le> 100" by simp_all }
  { assume "Some x \<in> set (wind fc)"
    then obtain p where "clip p 0 25 = Some x" by (auto simp: fc weather_day_def)
    from clip_bounds [OF _ this] show "0 \<le> x" "x \<le> 25" by simp_all }
next
  fix v lo hi :: real
  assume "lo \<le> hi"
  then show "\<exists>w. clip (Some v) lo hi = Some w \<and> lo \<le> w \<and> w \<le> hi \<and>
         (v < lo \<longrightarrow> w = lo) \<and> (hi < v \<longrightarrow> w = hi) \<and> (lo \<le> v \<and> v \<le> hi \<longrightarrow> w = v)"
    by (rule clip_Some)
next
  fix lo hi
  show "clip None lo hi = None" by (simp add: clip_def)
qed

theorem clipped_bounds_witness:
  "forecast_simple (sort_key timestamp) e0 hot 1 =
     (Some [\<lparr>fc_day = 1, fc_aqi = Some 500, fc_temp = Some 45, fc_date = 86400\<rparr>], []) \<and>
   forecast_weather (sort_key timestamp) e0 extreme 1 =
     ((Some [\<lparr>fc_day = 1, temps = replicate 24 (Some 45), humidity = replicate 24 (Some 20),
               wind = replicate 24 (Some 25)\<rparr>],
       Some \<lparr>temp_trend = Some 0, humidity_trend = Some 0, wind_trend = Some 0\<rparr>), []) \<and>
   clip (Some 600) 10 500 = Some 500 \<and> clip (Some 10) 20 100 = Some 20"
  using clipped_bounds [of "sort_key timestamp" e0 hot 1 "sort_key timestamp" extreme]
  by (simp add: hot_1 extreme_1 clip_def)

text \<open>
  Claim C3 as stated fails: not every returned value lies within its bounds.  The one
  row of \<open>temp_missing\<close> has no temperature, the baseline temperature is NaN, and all
  24 temperatures returned are NaN, which lies in no interval.
\<close>

theorem clipped_nan_stays:
  "map_option (map temps) (fst (fst (forecast_weather (sort_key timestamp) e0 temp_missing 1))) =
     Some [replicate 24 None] \<and>
   clip None 15 45 = None"
  by (simp add: temp_missing_1 clip_def)

subsection \<open>The hourly prediction\<close>







end
